theory Spec2Isabelle
  imports Complex_Main "HOL-Library.Monad_Syntax"
begin

section \<open>Tensors of the segmentation decoder (sfnet.py)\<close>

text \<open>
  A tensor is represented by the dataflow graph that computes it: one constructor for
  each torch operation that sfnet.py calls.  The shape of a node is computed by
  \<open>tsize\<close>, which is \<open>None\<close> where torch raises for the shapes it is given.  Feature maps
  are the 4-D tensors (batch, channels, height, width) of the specification; images
  without a batch dimension are not modelled.  Element values are idealised as real
  numbers (\<open>elem\<close> below); rounding is not modelled.
\<close>

type_synonym shape = "nat list"

text \<open>The identity of a layer object (and so of its weights) is its path in the module
  tree, as in the keys of a state dict: attribute names and list indices.\<close>

datatype label = L string | I nat

type_synonym path = "label list"

text \<open>\<open>nn.Conv2d(in, out, kernel_size, padding, bias)\<close> with stride 1, dilation 1,
  groups 1, as every convolution of sfnet.py is built.\<close>

record conv2d =
  conv_name :: path
  in_channels :: nat
  out_channels :: nat
  kernel :: nat
  pad :: nat
  conv_bias :: bool

text \<open>Modelled from the spec: \<open>build_norm_layer(num_features, normalize)[1]\<close> of
  \<open>eod.utils.model.normalize\<close> is not among the sources; the spec calls it a normalization
  layer.  It is an opaque node that accepts every 4-D input with \<open>num_features\<close> channels
  and keeps its shape; what a batch normalization in training mode demands of the batch
  (more than one value per channel) is not modelled.\<close>

record norm_layer =
  norm_name :: path
  norm_features :: nat

datatype tensor =
    Input string shape
  | Conv2d conv2d tensor
  | Norm norm_layer tensor
  | ReLU tensor
  | Dropout2d tensor
  | AdaptiveAvgPool2d nat tensor
  | Upsample tensor "nat \<times> nat"
  | Cat "tensor list" nat
  | GridSample tensor tensor
  | Add tensor tensor
  | Div tensor tensor
  | Permute tensor "nat list"
  | Literal shape "real list"
  | TypeAs tensor tensor
  | Linspace real real nat
  | View tensor "int list"
  | Repeat tensor "nat list"
  | Unsqueeze tensor nat

subsection \<open>Shapes\<close>

fun dims4 :: "shape option \<Rightarrow> (nat \<times> nat \<times> nat \<times> nat) option" where
  "dims4 (Some [n, c, h, w]) = Some (n, c, h, w)"
| "dims4 _ = None"

text \<open>Output size of a convolution: \<open>h + 2 * padding - (kernel_size - 1) - 1 + 1\<close>; torch
  raises when the kernel is larger than the padded input or the channels do not match.\<close>

definition conv_shape :: "conv2d \<Rightarrow> shape option \<Rightarrow> shape option" where
  "conv_shape cv s = do {
     (n, c, h, w) \<leftarrow> dims4 s;
     if c = in_channels cv \<and> 0 < kernel cv \<and> kernel cv \<le> h + 2 * pad cv
          \<and> kernel cv \<le> w + 2 * pad cv
     then Some [n, out_channels cv, h + 2 * pad cv - kernel cv + 1,
                w + 2 * pad cv - kernel cv + 1]
     else None }"

definition norm_shape :: "norm_layer \<Rightarrow> shape option \<Rightarrow> shape option" where
  "norm_shape nl s = do {
     (n, c, h, w) \<leftarrow> dims4 s;
     if c = norm_features nl then Some [n, c, h, w] else None }"

definition pool_shape :: "nat \<Rightarrow> shape option \<Rightarrow> shape option" where
  "pool_shape k s = do {
     (n, c, h, w) \<leftarrow> dims4 s;
     if 0 < h \<and> 0 < w then Some [n, c, k, k] else None }"

text \<open>\<open>F.upsample\<close> / \<open>F.interpolate\<close> with an explicit size, bilinear: a 4-D input, input
  and output sizes greater than 0.\<close>

definition upsample_shape :: "shape option \<Rightarrow> nat \<times> nat \<Rightarrow> shape option" where
  "upsample_shape s sz = do {
     (n, c, h, w) \<leftarrow> dims4 s;
     if 0 < h \<and> 0 < w \<and> 0 < fst sz \<and> 0 < snd sz then Some [n, c, fst sz, snd sz] else None }"

text \<open>\<open>torch.cat(tensors, d)\<close>: a non-empty list, all shapes equal except along \<open>d\<close>.\<close>

definition cat_shape :: "shape list \<Rightarrow> nat \<Rightarrow> shape option" where
  "cat_shape ss d =
     (case ss of
        [] \<Rightarrow> None
      | s # rest \<Rightarrow>
          if d < length s
             \<and> list_all (\<lambda>t. length t = length s \<and> take d t = take d s
                              \<and> drop (Suc d) t = drop (Suc d) s) rest
          then Some (take d s @ [sum_list (map (\<lambda>t. t ! d) ss)] @ drop (Suc d) s)
          else None)"

text \<open>\<open>F.grid_sample(input, grid)\<close>: input \<open>(N, C, H_in, W_in)\<close>, grid \<open>(N, H_out, W_out, 2)\<close>,
  output \<open>(N, C, H_out, W_out)\<close>.\<close>

definition grid_sample_shape :: "shape option \<Rightarrow> shape option \<Rightarrow> shape option" where
  "grid_sample_shape s g = do {
     (n, c, h, w) \<leftarrow> dims4 s;
     (m, ho, wo, k) \<leftarrow> dims4 g;
     if m = n \<and> k = 2 \<and> 0 < h \<and> 0 < w then Some [n, c, ho, wo] else None }"

text \<open>Broadcasting of element-wise operations: shapes are aligned at the last dimension;
  two extents are compatible when they are equal or one of them is 1.\<close>

definition bdim :: "nat \<Rightarrow> nat \<Rightarrow> nat option" where
  "bdim a b = (if a = b then Some a else if a = 1 then Some b else if b = 1 then Some a else None)"

definition lpad :: "nat \<Rightarrow> shape \<Rightarrow> shape" where
  "lpad r s = replicate (r - length s) 1 @ s"

definition broadcast :: "shape \<Rightarrow> shape \<Rightarrow> shape option" where
  "broadcast s t =
     (let r = max (length s) (length t)
      in those (map2 bdim (lpad r s) (lpad r t)))"

definition broadcast_shape :: "shape option \<Rightarrow> shape option \<Rightarrow> shape option" where
  "broadcast_shape s t = do { a \<leftarrow> s; b \<leftarrow> t; broadcast a b }"

definition permute_shape :: "shape option \<Rightarrow> nat list \<Rightarrow> shape option" where
  "permute_shape so p = do {
     s \<leftarrow> so;
     if length p = length s \<and> distinct p \<and> list_all (\<lambda>k. k < length s) p
     then Some (map (\<lambda>k. s ! k) p) else None }"

text \<open>\<open>x.view(*args)\<close>: at most one argument is \<open>-1\<close> and is inferred from the number of
  elements.\<close>

definition view_shape :: "shape option \<Rightarrow> int list \<Rightarrow> shape option" where
  "view_shape so args = do {
     s \<leftarrow> so;
     let numel = prod_list s;
     let known = prod_list (map nat (filter (\<lambda>a. a \<noteq> - 1) args));
     if \<not> list_all (\<lambda>a. - 1 \<le> a) args then None
     else if count_list args (- 1) = 0 then
       (if known = numel then Some (map nat args) else None)
     else if count_list args (- 1) = 1 \<and> 0 < known \<and> numel mod known = 0 then
       Some (map (\<lambda>a. if a = - 1 then numel div known else nat a) args)
     else None }"

text \<open>\<open>x.repeat(*reps)\<close>: at least as many repeats as dimensions; missing leading
  dimensions count as 1.\<close>

definition repeat_shape :: "shape option \<Rightarrow> nat list \<Rightarrow> shape option" where
  "repeat_shape so reps = do {
     s \<leftarrow> so;
     if length s \<le> length reps then Some (map2 (*) reps (lpad (length reps) s)) else None }"

definition unsqueeze_shape :: "shape option \<Rightarrow> nat \<Rightarrow> shape option" where
  "unsqueeze_shape so d = do {
     s \<leftarrow> so;
     if d \<le> length s then Some (take d s @ [1] @ drop d s) else None }"

fun tsize :: "tensor \<Rightarrow> shape option" where
  "tsize (Input nm s) = Some s"
| "tsize (Conv2d cv x) = conv_shape cv (tsize x)"
| "tsize (Norm nl x) = norm_shape nl (tsize x)"
| "tsize (ReLU x) = tsize x"
| "tsize (Dropout2d x) = map_option (\<lambda>(n, c, h, w). [n, c, h, w]) (dims4 (tsize x))"
| "tsize (AdaptiveAvgPool2d k x) = pool_shape k (tsize x)"
| "tsize (Upsample x sz) = upsample_shape (tsize x) sz"
| "tsize (Cat xs d) = do { ss \<leftarrow> those (map tsize xs); cat_shape ss d }"
| "tsize (GridSample x g) = grid_sample_shape (tsize x) (tsize g)"
| "tsize (Add a b) = broadcast_shape (tsize a) (tsize b)"
| "tsize (Div a b) = broadcast_shape (tsize a) (tsize b)"
| "tsize (Permute x p) = permute_shape (tsize x) p"
| "tsize (Literal s vs) = (if length vs = prod_list s then Some s else None)"
| "tsize (TypeAs x y) = do { s \<leftarrow> tsize x; _ \<leftarrow> tsize y; Some s }"
| "tsize (Linspace a b steps) = Some [steps]"
| "tsize (View x args) = view_shape (tsize x) args"
| "tsize (Repeat x reps) = repeat_shape (tsize x) reps"
| "tsize (Unsqueeze x d) = unsqueeze_shape (tsize x) d"

text \<open>Executing one torch operation: it returns the node, or raises (\<open>None\<close>) when the
  shapes do not fit.\<close>

definition run :: "tensor \<Rightarrow> tensor option" where
  "run t = (if tsize t = None then None else Some t)"

subsection \<open>AlignedModule\<close>

record aligned_module =
  down_h :: conv2d
  down_l :: conv2d
  flow_make :: conv2d

text \<open>\<open>AlignedModule.__init__(inplane, outplane, kernel_size=3)\<close>; \<open>nm\<close> is the path of
  the module instance.\<close>

definition AlignedModule_init :: "path \<Rightarrow> nat \<Rightarrow> nat \<Rightarrow> nat \<Rightarrow> aligned_module" where
  "AlignedModule_init nm inplane outplane kernel_size =
     \<lparr> down_h = \<lparr> conv_name = nm @ [L ''down_h''], in_channels = inplane, out_channels = outplane,
                  kernel = 1, pad = 0, conv_bias = False \<rparr>,
       down_l = \<lparr> conv_name = nm @ [L ''down_l''], in_channels = inplane, out_channels = outplane,
                  kernel = 1, pad = 0, conv_bias = False \<rparr>,
       flow_make = \<lparr> conv_name = nm @ [L ''flow_make''], in_channels = outplane * 2, out_channels = 2,
                     kernel = kernel_size, pad = 1, conv_bias = False \<rparr> \<rparr>"

text \<open>Lines 36-44 of \<open>AlignedModule.flow_warp(input, flow, size)\<close>: the sampling grid.
  \<open>type_as(input).to(input.device)\<close> is one \<open>TypeAs\<close> node.\<close>

definition flow_warp_grid :: "tensor \<Rightarrow> tensor \<Rightarrow> nat \<times> nat \<Rightarrow> tensor option" where
  "flow_warp_grid input flow sz =
     (case sz of (out_h, out_w) \<Rightarrow> do {
        (n, c, h, w) \<leftarrow> dims4 (tsize input);
        lit \<leftarrow> run (Literal [1, 1, 1, 2] [real out_w, real out_h]);
        norm \<leftarrow> run (TypeAs lit input);
        w \<leftarrow> run (Linspace (- 1) 1 out_h);
        w \<leftarrow> run (View w [- 1, 1]);
        w \<leftarrow> run (Repeat w [1, out_w]);
        h \<leftarrow> run (Linspace (- 1) 1 out_w);
        h \<leftarrow> run (Repeat h [out_h, 1]);
        hu \<leftarrow> run (Unsqueeze h 2);
        wu \<leftarrow> run (Unsqueeze w 2);
        grid \<leftarrow> run (Cat [hu, wu] 2);
        grid \<leftarrow> run (Repeat grid [n, 1, 1, 1]);
        grid \<leftarrow> run (TypeAs grid input);
        fp \<leftarrow> run (Permute flow [0, 2, 3, 1]);
        fd \<leftarrow> run (Div fp norm);
        run (Add grid fd) })"

text \<open>\<open>AlignedModule.flow_warp\<close>: the grid, then line 46, \<open>F.grid_sample(input, grid)\<close>.\<close>

definition flow_warp :: "tensor \<Rightarrow> tensor \<Rightarrow> nat \<times> nat \<Rightarrow> tensor option" where
  "flow_warp input flow sz = do {
     grid \<leftarrow> flow_warp_grid input flow sz;
     run (GridSample input grid) }"

text \<open>Lines 23-30 of \<open>AlignedModule.forward\<close>: the three arguments with which line 31
  calls \<open>flow_warp\<close>.\<close>

definition AlignedModule_warp_args ::
  "aligned_module \<Rightarrow> tensor \<times> tensor \<Rightarrow> (tensor \<times> tensor \<times> (nat \<times> nat)) option" where
  "AlignedModule_warp_args m x =
     (case x of (low_feature, h_feature) \<Rightarrow> do {
        let h_feature_orign = h_feature;
        (n, c, h, w) \<leftarrow> dims4 (tsize low_feature);
        let sz = (h, w);
        low_feature \<leftarrow> run (Conv2d (down_l m) low_feature);
        h_feature \<leftarrow> run (Conv2d (down_h m) h_feature);
        h_feature \<leftarrow> run (Upsample h_feature sz);
        c \<leftarrow> run (Cat [h_feature, low_feature] 1);
        flow \<leftarrow> run (Conv2d (flow_make m) c);
        Some (h_feature_orign, flow, sz) })"

definition AlignedModule_forward :: "aligned_module \<Rightarrow> tensor \<times> tensor \<Rightarrow> tensor option" where
  "AlignedModule_forward m x = do {
     (h_feature_orign, flow, sz) \<leftarrow> AlignedModule_warp_args m x;
     flow_warp h_feature_orign flow sz }"

text \<open>The tensor that a \<open>grid_sample\<close> node resamples.\<close>

fun sampled_input :: "tensor \<Rightarrow> tensor option" where
  "sampled_input (GridSample x g) = Some x"
| "sampled_input _ = None"

subsection \<open>PSPModule\<close>

text \<open>One stage, \<open>nn.Sequential(prior, conv, bn)\<close> of \<open>_make_stage\<close>: adaptive average
  pooling to \<open>(size, size)\<close>, a 1x1 convolution without bias, a normalization layer.\<close>

record psp_stage =
  prior :: nat
  stage_conv :: conv2d
  stage_bn :: norm_layer

record psp_module =
  out_planes :: nat
  stages :: "psp_stage list"
  bottleneck_conv :: conv2d
  bottleneck_bn :: norm_layer

definition make_stage :: "path \<Rightarrow> nat \<Rightarrow> nat \<Rightarrow> nat \<Rightarrow> psp_stage" where
  "make_stage nm inplanes outp sz =
     \<lparr> prior = sz,
       stage_conv = \<lparr> conv_name = nm @ [I 1], in_channels = inplanes, out_channels = outp,
                      kernel = 1, pad = 0, conv_bias = False \<rparr>,
       stage_bn = \<lparr> norm_name = nm @ [I 2], norm_features = outp \<rparr> \<rparr>"

text \<open>\<open>PSPModule.__init__(inplanes, out_planes=512, sizes=(1, 2, 3, 6))\<close>.  The bottleneck
  convolution is built with \<open>kernel_size=1, padding=1\<close>.\<close>

definition PSPModule_init :: "path \<Rightarrow> nat \<Rightarrow> nat \<Rightarrow> nat list \<Rightarrow> psp_module" where
  "PSPModule_init nm inplanes outp sizes =
     \<lparr> out_planes = outp,
       stages = map (\<lambda>(i, sz). make_stage (nm @ [L ''stages'', I i]) inplanes outp sz)
                    (enumerate 0 sizes),
       bottleneck_conv = \<lparr> conv_name = nm @ [L ''bottleneck'', I 0],
                           in_channels = inplanes + length sizes * outp, out_channels = outp,
                           kernel = 1, pad = 1, conv_bias = False \<rparr>,
       bottleneck_bn = \<lparr> norm_name = nm @ [L ''bottleneck'', I 1], norm_features = outp \<rparr> \<rparr>"

definition stage_forward :: "psp_stage \<Rightarrow> tensor \<Rightarrow> tensor option" where
  "stage_forward st x = do {
     p \<leftarrow> run (AdaptiveAvgPool2d (prior st) x);
     c \<leftarrow> run (Conv2d (stage_conv st) p);
     run (Norm (stage_bn st) c) }"

text \<open>\<open>self.bottleneck\<close>: \<open>nn.Sequential(Conv2d, norm, ReLU, Dropout2d(0.1))\<close>.\<close>

definition bottleneck :: "psp_module \<Rightarrow> tensor \<Rightarrow> tensor option" where
  "bottleneck m x = do {
     c \<leftarrow> run (Conv2d (bottleneck_conv m) x);
     b \<leftarrow> run (Norm (bottleneck_bn m) c);
     r \<leftarrow> run (ReLU b);
     run (Dropout2d r) }"

text \<open>Lines 75-77 of \<open>PSPModule.forward\<close>: the list \<open>priors\<close>.  \<open>feats.size(2)\<close> and
  \<open>feats.size(3)\<close> raise for a tensor of fewer than four dimensions.\<close>

definition PSPModule_priors :: "psp_module \<Rightarrow> tensor \<Rightarrow> tensor list option" where
  "PSPModule_priors m feats = do {
     s \<leftarrow> tsize feats;
     if length s < 4 then None
     else do {
       let h = s ! 2;
       let w = s ! 3;
       ups \<leftarrow> those (map (\<lambda>stage. do { y \<leftarrow> stage_forward stage feats;
                                          run (Upsample y (h, w)) }) (stages m));
       Some (ups @ [feats]) } }"

definition PSPModule_forward :: "psp_module \<Rightarrow> tensor \<Rightarrow> tensor option" where
  "PSPModule_forward m feats = do {
     priors \<leftarrow> PSPModule_priors m feats;
     c \<leftarrow> run (Cat priors 1);
     bottleneck m c }"

text \<open>The branch of one stage in the words of the specification: average pooling, the
  stage's convolution and normalization, and bilinear upsampling to the given size.\<close>

definition pooled_branch :: "psp_stage \<Rightarrow> tensor \<Rightarrow> nat \<times> nat \<Rightarrow> tensor" where
  "pooled_branch st feats sz =
     Upsample (Norm (stage_bn st) (Conv2d (stage_conv st) (AdaptiveAvgPool2d (prior st) feats))) sz"

subsection \<open>ConvBnRelu\<close>

record conv_bn_relu =
  cbr_conv :: conv2d
  has_bn :: bool
  cbr_bn :: norm_layer
  has_relu :: bool

text \<open>\<open>ConvBnRelu(in_planes, out_planes, ksize)\<close> with the defaults \<open>stride=1, pad=0,
  has_bn=True, has_relu=True, has_bias=False\<close> that sfnet.py uses at both of its calls.\<close>

definition ConvBnRelu_init :: "path \<Rightarrow> nat \<Rightarrow> nat \<Rightarrow> nat \<Rightarrow> conv_bn_relu" where
  "ConvBnRelu_init nm in_planes outp ksize =
     \<lparr> cbr_conv = \<lparr> conv_name = nm @ [L ''conv''], in_channels = in_planes, out_channels = outp,
                    kernel = ksize, pad = 0, conv_bias = False \<rparr>,
       has_bn = True,
       cbr_bn = \<lparr> norm_name = nm @ [L ''bn''], norm_features = outp \<rparr>,
       has_relu = True \<rparr>"

definition ConvBnRelu_forward :: "conv_bn_relu \<Rightarrow> tensor \<Rightarrow> tensor option" where
  "ConvBnRelu_forward m x = do {
     x \<leftarrow> run (Conv2d (cbr_conv m) x);
     x \<leftarrow> (if has_bn m then run (Norm (cbr_bn m) x) else Some x);
     x \<leftarrow> (if has_relu m then run (ReLU x) else Some x);
     Some x }"

subsection \<open>AlignHead\<close>

text \<open>A lateral branch \<open>fpn_in[i]\<close>: \<open>nn.Sequential(Conv2d(fpn_inplane, fpn_dim, 1), norm,
  ReLU)\<close>.\<close>

record lateral =
  lat_conv :: conv2d
  lat_bn :: norm_layer

record align_head =
  ppm :: psp_module
  fpn_in :: "lateral list"
  fpn_out :: "conv_bn_relu list"
  fpn_out_align :: "aligned_module list"
  conv_last_cbr :: conv_bn_relu
  conv_last_conv :: conv2d

definition AlignHead_init :: "path \<Rightarrow> nat \<Rightarrow> nat \<Rightarrow> nat list \<Rightarrow> nat \<Rightarrow> align_head" where
  "AlignHead_init nm inplane num_class fpn_inplanes fpn_dim =
     \<lparr> ppm = PSPModule_init (nm @ [L ''ppm'']) inplane fpn_dim [1, 2, 3, 6],
       fpn_in = map (\<lambda>(i, fpn_inplane).
                   \<lparr> lat_conv = \<lparr> conv_name = nm @ [L ''fpn_in'', I i, I 0],
                                  in_channels = fpn_inplane, out_channels = fpn_dim,
                                  kernel = 1, pad = 0, conv_bias = True \<rparr>,
                     lat_bn = \<lparr> norm_name = nm @ [L ''fpn_in'', I i, I 1],
                                norm_features = fpn_dim \<rparr> \<rparr>)
                 (enumerate 0 (butlast fpn_inplanes)),
       fpn_out = map (\<lambda>i. ConvBnRelu_init (nm @ [L ''fpn_out'', I i, I 0]) fpn_dim fpn_dim 1)
                  [0..<length fpn_inplanes - 1],
       fpn_out_align = map (\<lambda>i. AlignedModule_init (nm @ [L ''fpn_out_align'', I i])
                                   fpn_dim (fpn_dim div 2) 3)
                        [0..<length fpn_inplanes - 1],
       conv_last_cbr = ConvBnRelu_init (nm @ [L ''conv_last'', I 0])
                         (length fpn_inplanes * fpn_dim) fpn_dim 1,
       conv_last_conv = \<lparr> conv_name = nm @ [L ''conv_last'', I 1], in_channels = fpn_dim,
                          out_channels = num_class, kernel = 1, pad = 0,
                          conv_bias = True \<rparr> \<rparr>"

definition lateral_forward :: "lateral \<Rightarrow> tensor \<Rightarrow> tensor option" where
  "lateral_forward m x = do {
     c \<leftarrow> run (Conv2d (lat_conv m) x);
     b \<leftarrow> run (Norm (lat_bn m) c);
     run (ReLU b) }"

text \<open>Indexing a Python list or \<open>nn.ModuleList\<close> with a non-negative index raises
  IndexError out of range; \<open>xs[-1]\<close> raises on the empty list.\<close>

definition nth_opt :: "'a list \<Rightarrow> nat \<Rightarrow> 'a option" where
  "nth_opt xs i = (if i < length xs then Some (xs ! i) else None)"

definition last_opt :: "'a list \<Rightarrow> 'a option" where
  "last_opt xs = (if xs = [] then None else Some (last xs))"

text \<open>The loop of lines 150-155, over the indices it is given, with the loop variables
  \<open>f\<close> and \<open>fpn_feature_list\<close>.\<close>

fun fpn_loop ::
  "align_head \<Rightarrow> tensor list \<Rightarrow> nat list \<Rightarrow> tensor \<Rightarrow> tensor list
     \<Rightarrow> (tensor \<times> tensor list) option" where
  "fpn_loop m conv_out [] f fpn_feature_list = Some (f, fpn_feature_list)"
| "fpn_loop m conv_out (i # rest) f fpn_feature_list = do {
     conv_x \<leftarrow> nth_opt conv_out i;
     lat \<leftarrow> nth_opt (fpn_in m) i;
     conv_x \<leftarrow> lateral_forward lat conv_x;
     al \<leftarrow> nth_opt (fpn_out_align m) i;
     f \<leftarrow> AlignedModule_forward al (conv_x, f);
     f \<leftarrow> run (Add conv_x f);
     out \<leftarrow> nth_opt (fpn_out m) i;
     y \<leftarrow> ConvBnRelu_forward out f;
     fpn_loop m conv_out rest f (fpn_feature_list @ [y]) }"

text \<open>Lines 158-170: the fusion of the feature list, already in the order in which it is
  fused.\<close>

definition AlignHead_fuse :: "align_head \<Rightarrow> tensor list \<Rightarrow> tensor option" where
  "AlignHead_fuse m fpn_feature_list = do {
     first \<leftarrow> nth_opt fpn_feature_list 0;
     (n, c, h, w) \<leftarrow> dims4 (tsize first);
     let output_size = (h, w);
     rest \<leftarrow> those (map (\<lambda>t. run (Upsample t output_size)) (tl fpn_feature_list));
     let fusion_list = first # rest;
     fusion_out \<leftarrow> run (Cat fusion_list 1);
     x \<leftarrow> ConvBnRelu_forward (conv_last_cbr m) fusion_out;
     run (Conv2d (conv_last_conv m) x) }"

definition AlignHead_forward :: "align_head \<Rightarrow> tensor list \<Rightarrow> tensor option" where
  "AlignHead_forward m conv_out = do {
     c \<leftarrow> last_opt conv_out;
     psp_out \<leftarrow> PSPModule_forward (ppm m) c;
     (f, fpn_feature_list) \<leftarrow>
        fpn_loop m conv_out (rev [0..<length conv_out - 1]) psp_out [psp_out];
     AlignHead_fuse m (rev fpn_feature_list) }"

text \<open>The feature pyramid in the words of the specification: the levels of \<open>conv_out\<close>,
  finest first, numbered from \<open>i\<close>.  The coarsest level is pyramid-pooled; every finer
  level is computed from the result \<open>f\<close> of the level below it in resolution, which is
  therefore computed first.  The result is the last \<open>f\<close> and the features of all levels,
  finest first.\<close>

fun pyramid :: "align_head \<Rightarrow> nat \<Rightarrow> tensor list \<Rightarrow> (tensor \<times> tensor list) option" where
  "pyramid m i [] = None"
| "pyramid m i [c] = do { psp_out \<leftarrow> PSPModule_forward (ppm m) c; Some (psp_out, [psp_out]) }"
| "pyramid m i (x # xs) = do {
     (f, coarser) \<leftarrow> pyramid m (Suc i) xs;
     lat \<leftarrow> nth_opt (fpn_in m) i;
     conv_x \<leftarrow> lateral_forward lat x;
     al \<leftarrow> nth_opt (fpn_out_align m) i;
     f \<leftarrow> AlignedModule_forward al (conv_x, f);
     f \<leftarrow> run (Add conv_x f);
     out \<leftarrow> nth_opt (fpn_out m) i;
     y \<leftarrow> ConvBnRelu_forward out f;
     Some (f, y # coarser) }"

subsection \<open>Element values\<close>

text \<open>Row-major position of an index in a shape, and back.\<close>

fun ravel :: "shape \<Rightarrow> nat list \<Rightarrow> nat" where
  "ravel (d # ds) (i # is) = i * prod_list ds + ravel ds is"
| "ravel _ _ = 0"

fun unravel :: "shape \<Rightarrow> nat \<Rightarrow> nat list" where
  "unravel [] k = []"
| "unravel (d # ds) k = (k div prod_list ds) # unravel ds (k mod prod_list ds)"

text \<open>The index at which a broadcast operand of shape \<open>s\<close> is read for the index \<open>idx\<close>
  of the result.\<close>

definition bidx :: "shape \<Rightarrow> nat list \<Rightarrow> nat list" where
  "bidx s idx = map2 (\<lambda>d i. if d = 1 then 0 else i) s (drop (length idx - length s) idx)"

text \<open>Element \<open>i\<close> of \<open>torch.linspace(a, b, steps)\<close>.\<close>

definition linspace :: "real \<Rightarrow> real \<Rightarrow> nat \<Rightarrow> nat \<Rightarrow> real" where
  "linspace a b steps i = (if steps \<le> 1 then a else a + real i * ((b - a) / real (steps - 1)))"

definition shape_of :: "tensor \<Rightarrow> shape" where
  "shape_of t = (case tsize t of Some s \<Rightarrow> s | None \<Rightarrow> [])"

text \<open>The position of \<open>j\<close> in the permutation \<open>p\<close>.\<close>

definition index_of :: "nat list \<Rightarrow> nat \<Rightarrow> nat" where
  "index_of p j = length (takeWhile (\<lambda>k. k \<noteq> j) p)"

text \<open>The value of a tensor at an index of its shape.  The operations that only move,
  repeat and combine elements are computed; the value of any other node (an input, a
  convolution, a resampling) is given by the valuation \<open>\<rho>\<close>.  Division is that of the
  reals and is meant for a divisor that is not 0.\<close>

fun elem :: "(tensor \<Rightarrow> nat list \<Rightarrow> real) \<Rightarrow> tensor \<Rightarrow> nat list \<Rightarrow> real"
  and elem_cat :: "(tensor \<Rightarrow> nat list \<Rightarrow> real) \<Rightarrow> tensor list \<Rightarrow> nat \<Rightarrow> nat list \<Rightarrow> real" where
  "elem \<rho> (Cat xs d) idx = elem_cat \<rho> xs d idx"
| "elem \<rho> (Add a b) idx = elem \<rho> a (bidx (shape_of a) idx) + elem \<rho> b (bidx (shape_of b) idx)"
| "elem \<rho> (Div a b) idx = elem \<rho> a (bidx (shape_of a) idx) / elem \<rho> b (bidx (shape_of b) idx)"
| "elem \<rho> (Permute x p) idx = elem \<rho> x (map (\<lambda>j. idx ! index_of p j) [0..<length p])"
| "elem \<rho> (Literal s vs) idx = vs ! ravel s idx"
| "elem \<rho> (TypeAs x y) idx = elem \<rho> x idx"
| "elem \<rho> (Linspace a b steps) idx = linspace a b steps (idx ! 0)"
| "elem \<rho> (View x args) idx =
     elem \<rho> x (unravel (shape_of x) (ravel (shape_of (View x args)) idx))"
| "elem \<rho> (Repeat x reps) idx =
     elem \<rho> x (drop (length reps - length (shape_of x))
                  (map2 (\<lambda>i d. i mod d) idx (lpad (length reps) (shape_of x))))"
| "elem \<rho> (Unsqueeze x d) idx = elem \<rho> x (take d idx @ drop (Suc d) idx)"
| "elem \<rho> (Input nm s) idx = \<rho> (Input nm s) idx"
| "elem \<rho> (Conv2d cv x) idx = \<rho> (Conv2d cv x) idx"
| "elem \<rho> (Norm nl x) idx = \<rho> (Norm nl x) idx"
| "elem \<rho> (ReLU x) idx = \<rho> (ReLU x) idx"
| "elem \<rho> (Dropout2d x) idx = \<rho> (Dropout2d x) idx"
| "elem \<rho> (AdaptiveAvgPool2d k x) idx = \<rho> (AdaptiveAvgPool2d k x) idx"
| "elem \<rho> (Upsample x sz) idx = \<rho> (Upsample x sz) idx"
| "elem \<rho> (GridSample x g) idx = \<rho> (GridSample x g) idx"
| "elem_cat \<rho> [] d idx = 0"
| "elem_cat \<rho> (x # xs) d idx =
     (if idx ! d < shape_of x ! d then elem \<rho> x idx
      else elem_cat \<rho> xs d (idx[d := idx ! d - shape_of x ! d]))"

section \<open>Weight initialisation (initializer.py)\<close>

datatype error =
    AttributeError
  | ZeroDivisionError
  | ValueError
  | TypeError
  | RuntimeError
  | KeyError string
  | NotImplementedError string
  | NotRegistered
  | AssertionError string
  | SystemExit nat

text \<open>An element of a parameter tensor.  Finite values are idealised as reals (rounding,
  overflow and signed zeros are not modelled); the other three are what a tensor
  division by zero produces.\<close>

datatype fval = Fin real | PosInf | NegInf | NaN

fun fexp :: "fval \<Rightarrow> fval" where
  "fexp (Fin x) = Fin (exp x)"
| "fexp PosInf = PosInf"
| "fexp NegInf = Fin 0"
| "fexp NaN = NaN"

fun fadd :: "fval \<Rightarrow> fval \<Rightarrow> fval" where
  "fadd (Fin x) (Fin y) = Fin (x + y)"
| "fadd NaN _ = NaN"
| "fadd _ NaN = NaN"
| "fadd PosInf NegInf = NaN"
| "fadd NegInf PosInf = NaN"
| "fadd PosInf _ = PosInf"
| "fadd _ PosInf = PosInf"
| "fadd NegInf _ = NegInf"
| "fadd _ NegInf = NegInf"

text \<open>A tensor element times, and divided by, a Python float.\<close>

fun fmul :: "fval \<Rightarrow> real \<Rightarrow> fval" where
  "fmul (Fin x) r = Fin (x * r)"
| "fmul NaN r = NaN"
| "fmul PosInf r = (if 0 < r then PosInf else if r < 0 then NegInf else NaN)"
| "fmul NegInf r = (if 0 < r then NegInf else if r < 0 then PosInf else NaN)"

fun fdiv :: "fval \<Rightarrow> real \<Rightarrow> fval" where
  "fdiv (Fin x) r =
     (if r \<noteq> 0 then Fin (x / r) else if 0 < x then PosInf else if x < 0 then NegInf else NaN)"
| "fdiv NaN r = NaN"
| "fdiv PosInf r = (if 0 \<le> r then PosInf else NegInf)"
| "fdiv NegInf r = (if 0 \<le> r then NegInf else PosInf)"

text \<open>\<open>math.log\<close> of a tensor element converted to a Python float: ValueError for an
  argument that is not positive.\<close>

fun math_log :: "fval \<Rightarrow> error + fval" where
  "math_log (Fin x) = (if 0 < x then Inr (Fin (ln x)) else Inl ValueError)"
| "math_log PosInf = Inr PosInf"
| "math_log NegInf = Inl ValueError"
| "math_log NaN = Inr NaN"

datatype kind = KConv2d | KLinear | KConvTranspose2d | KBatchNorm2d | KOther

record param =
  pshape :: shape
  pdata :: "fval list"

text \<open>One module of the tree: its class, its \<open>weight\<close> (any shape) and its \<open>bias\<close> (one
  dimension), each \<open>None\<close> as in Python when the module has none.  A model is the list of
  modules that \<open>module.modules()\<close> enumerates: itself, then every submodule once.
  Every module has its own parameters.\<close>

record nn_module =
  kind :: kind
  weight :: "param option"
  bias :: "fval list option"

text \<open>The state of torch's random number generator: the standard normal samples it will
  give, in order.\<close>

type_synonym rng = "nat \<Rightarrow> real"

text \<open>\<open>tensor.normal_(mean, std)\<close> on \<open>n\<close> elements; torch raises for a negative \<open>std\<close>.\<close>

definition tensor_normal :: "real \<Rightarrow> real \<Rightarrow> nat \<Rightarrow> rng \<Rightarrow> error + (fval list \<times> rng)" where
  "tensor_normal mean std n g =
     (if std < 0 then Inl RuntimeError
      else Inr (map (\<lambda>k. Fin (mean + std * g k)) [0..<n], (\<lambda>k. g (k + n))))"

text \<open>\<open>for m in module.modules(): body\<close>.  The body returns the error it raised, if any,
  with the module and the generator as it left them; a raise ends the loop.\<close>

fun for_modules ::
  "(nn_module \<Rightarrow> rng \<Rightarrow> error option \<times> nn_module \<times> rng) \<Rightarrow> nn_module list \<Rightarrow> rng
     \<Rightarrow> error option \<times> nn_module list \<times> rng" where
  "for_modules body [] g = (None, [], g)"
| "for_modules body (m # ms) g =
     (case body m g of
        (Some e, m', g') \<Rightarrow> (Some e, m' # ms, g')
      | (None, m', g') \<Rightarrow>
          (case for_modules body ms g' of (r, ms', g'') \<Rightarrow> (r, m' # ms', g'')))"

definition fill_param :: "param \<Rightarrow> fval \<Rightarrow> param" where
  "fill_param p v = p\<lparr> pdata := replicate (length (pdata p)) v \<rparr>"

definition conv_or_linear_or_transpose :: "nn_module \<Rightarrow> bool" where
  "conv_or_linear_or_transpose m \<longleftrightarrow>
     kind m = KConv2d \<or> kind m = KLinear \<or> kind m = KConvTranspose2d"

text \<open>\<open>init_weights_constant(module, val=0)\<close>: \<open>m.bias.data\<close> raises AttributeError for a
  module without bias, after the weight has been filled.\<close>

definition init_weights_constant ::
  "nn_module list \<Rightarrow> real \<Rightarrow> rng \<Rightarrow> error option \<times> nn_module list \<times> rng" where
  "init_weights_constant model val =
     for_modules (\<lambda>m g.
       if conv_or_linear_or_transpose m then
         (case weight m of
            None \<Rightarrow> (Some AttributeError, m, g)
          | Some wt \<Rightarrow>
              let m = m\<lparr> weight := Some (fill_param wt (Fin val)) \<rparr>
              in (case bias m of
                    None \<Rightarrow> (Some AttributeError, m, g)
                  | Some b \<Rightarrow> (None, m\<lparr> bias := Some (replicate (length b) (Fin val)) \<rparr>, g)))
       else (None, m, g)) model"

text \<open>A weight filled with normal samples of mean 0, then the bias zeroed if there is
  one: the common body of the normal, xavier and msra initializers, which differ in the
  standard deviation they compute from the weight.\<close>

definition normal_weight_zero_bias ::
  "(param \<Rightarrow> error + real) \<Rightarrow> nn_module \<Rightarrow> rng \<Rightarrow> error option \<times> nn_module \<times> rng" where
  "normal_weight_zero_bias std_of m g =
     (if conv_or_linear_or_transpose m then
        (case weight m of
           None \<Rightarrow> (Some AttributeError, m, g)
         | Some wt \<Rightarrow>
             (case std_of wt of
                Inl e \<Rightarrow> (Some e, m, g)
              | Inr std \<Rightarrow>
                  (case tensor_normal 0 std (length (pdata wt)) g of
                     Inl e \<Rightarrow> (Some e, m, g)
                   | Inr (vs, g') \<Rightarrow>
                       let m = m\<lparr> weight := Some (wt\<lparr> pdata := vs \<rparr>) \<rparr>
                       in (None,
                           (case bias m of
                              None \<Rightarrow> m
                            | Some b \<Rightarrow> m\<lparr> bias := Some (replicate (length b) (Fin 0)) \<rparr>),
                           g'))))
      else (None, m, g))"

definition init_weights_normal ::
  "nn_module list \<Rightarrow> real \<Rightarrow> rng \<Rightarrow> error option \<times> nn_module list \<times> rng" where
  "init_weights_normal model std = for_modules (normal_weight_zero_bias (\<lambda>wt. Inr std)) model"

text \<open>Fan-in and fan-out of a weight, as torch computes them: ValueError for fewer than
  two dimensions.\<close>

definition fans :: "shape \<Rightarrow> error + (nat \<times> nat)" where
  "fans s =
     (if length s < 2 then Inl ValueError
      else let receptive = prod_list (drop 2 s)
           in Inr (s ! 1 * receptive, s ! 0 * receptive))"

text \<open>\<open>nn.init.xavier_normal_\<close>: standard deviation \<open>sqrt(2 / (fan_in + fan_out))\<close>.\<close>

definition xavier_std :: "param \<Rightarrow> error + real" where
  "xavier_std wt =
     (case fans (pshape wt) of
        Inl e \<Rightarrow> Inl e
      | Inr (fan_in, fan_out) \<Rightarrow>
          if fan_in + fan_out = 0 then Inl ZeroDivisionError
          else Inr (sqrt (2 / real (fan_in + fan_out))))"

text \<open>\<open>nn.init.kaiming_normal_(w, a=1)\<close>: gain \<open>sqrt(2 / (1 + a * a))\<close>, standard deviation
  \<open>gain / sqrt(fan_in)\<close>.\<close>

definition msra_std :: "param \<Rightarrow> error + real" where
  "msra_std wt =
     (case fans (pshape wt) of
        Inl e \<Rightarrow> Inl e
      | Inr (fan_in, fan_out) \<Rightarrow>
          if fan_in = 0 then Inl ZeroDivisionError
          else Inr (sqrt (2 / (1 + 1 * 1)) / sqrt (real fan_in)))"

definition init_weights_xavier ::
  "nn_module list \<Rightarrow> rng \<Rightarrow> error option \<times> nn_module list \<times> rng" where
  "init_weights_xavier model = for_modules (normal_weight_zero_bias xavier_std) model"

definition init_weights_msra ::
  "nn_module list \<Rightarrow> rng \<Rightarrow> error option \<times> nn_module list \<times> rng" where
  "init_weights_msra model = for_modules (normal_weight_zero_bias msra_std) model"

subsection \<open>init_bias_focal\<close>

text \<open>\<open>-math.log(1.0 / init_prior - 1.0)\<close> on Python floats: ZeroDivisionError for 0,
  ValueError from \<open>math.log\<close> when its argument is not positive.\<close>

definition neg_log_odds :: "real \<Rightarrow> error + real" where
  "neg_log_odds init_prior =
     (if init_prior = 0 then Inl ZeroDivisionError
      else if 1 / init_prior - 1 \<le> 0 then Inl ValueError
      else Inr (- ln (1 / init_prior - 1)))"

text \<open>Lines 64-67, for one module.  Line 66 evaluates \<open>m.bias.data\<close>, then the mean, then
  draws; line 67 evaluates the constant again and fills the bias with it.\<close>

definition focal_sigmoid_body ::
  "real \<Rightarrow> nn_module \<Rightarrow> rng \<Rightarrow> error option \<times> nn_module \<times> rng" where
  "focal_sigmoid_body init_prior m g =
     (if kind m = KConv2d \<or> kind m = KLinear then
        (case bias m of
           None \<Rightarrow> (Some AttributeError, m, g)
         | Some b \<Rightarrow>
             (case neg_log_odds init_prior of
                Inl e \<Rightarrow> (Some e, m, g)
              | Inr mean \<Rightarrow>
                  (case tensor_normal mean init_prior (length b) g of
                     Inl e \<Rightarrow> (Some e, m, g)
                   | Inr (vs, g') \<Rightarrow>
                       let m = m\<lparr> bias := Some vs \<rparr>
                       in (case neg_log_odds init_prior of
                             Inl e \<Rightarrow> (Some e, m, g')
                           | Inr c \<Rightarrow>
                               (None, m\<lparr> bias := Some (replicate (length vs) (Fin c)) \<rparr>, g')))))
      else (None, m, g))"

text \<open>\<open>range(0, n, step)\<close>: ValueError for step 0, empty for a negative step.\<close>

definition py_range :: "nat \<Rightarrow> int \<Rightarrow> error + nat list" where
  "py_range n step =
     (if step = 0 then Inl ValueError
      else if step < 0 then Inr []
      else Inr (filter (\<lambda>i. i mod nat step = 0) [0..<n]))"

text \<open>The slice \<open>xs[a:b]\<close> for \<open>0 \<le> a\<close> and \<open>0 \<le> b\<close>.\<close>

definition py_slice :: "'a list \<Rightarrow> nat \<Rightarrow> nat \<Rightarrow> 'a list" where
  "py_slice xs a b = take (b - a) (drop a xs)"

text \<open>Lines 73-76: for each \<open>i\<close>, the slice \<open>fg\<close> of the \<open>num_classes - 1\<close> elements after
  position \<open>i\<close>, \<open>mu\<close> the sum of their exponentials, and the assignment to element \<open>i\<close>.\<close>

fun focal_softmax_fill :: "real \<Rightarrow> int \<Rightarrow> nat list \<Rightarrow> fval list \<Rightarrow> error option \<times> fval list" where
  "focal_softmax_fill init_prior num_classes [] b = (None, b)"
| "focal_softmax_fill init_prior num_classes (i # rest) b =
     (let fg = py_slice b (i + 1) (nat (int i + 1 + num_classes - 1));
          mu = foldl fadd (Fin 0) (map fexp fg)
      in case math_log (fdiv (fmul mu (1 - init_prior)) init_prior) of
           Inl e \<Rightarrow> (Some e, b)
         | Inr v \<Rightarrow> focal_softmax_fill init_prior num_classes rest (b[i := v]))"

definition focal_softmax_body ::
  "real \<Rightarrow> int \<Rightarrow> nn_module \<Rightarrow> rng \<Rightarrow> error option \<times> nn_module \<times> rng" where
  "focal_softmax_body init_prior num_classes m g =
     (if kind m = KConv2d \<or> kind m = KLinear then
        (case bias m of
           None \<Rightarrow> (Some AttributeError, m, g)
         | Some b \<Rightarrow>
             (case tensor_normal 0 0.01 (length b) g of
                Inl e \<Rightarrow> (Some e, m, g)
              | Inr (vs, g') \<Rightarrow>
                  (case py_range (length vs) num_classes of
                     Inl e \<Rightarrow> (Some e, m\<lparr> bias := Some vs \<rparr>, g')
                   | Inr is \<Rightarrow>
                       (case focal_softmax_fill init_prior num_classes is vs of
                          (r, vs') \<Rightarrow> (r, m\<lparr> bias := Some vs' \<rparr>, g')))))
      else (None, m, g))"

definition init_bias_focal ::
  "nn_module list \<Rightarrow> string \<Rightarrow> real \<Rightarrow> int \<Rightarrow> rng \<Rightarrow> error option \<times> nn_module list \<times> rng" where
  "init_bias_focal model cls_loss_type init_prior num_classes g =
     (if cls_loss_type = ''sigmoid'' then
        for_modules (focal_sigmoid_body init_prior) model g
      else if cls_loss_type = ''softmax'' then
        for_modules (focal_softmax_body init_prior num_classes) model g
      else (Some (NotImplementedError (cls_loss_type @ '' is not supported'')), model, g))"

subsection \<open>initialize and initialize_from_cfg\<close>

text \<open>Configuration values as the YAML loader gives them, and a dict with string keys in
  insertion order.\<close>

datatype pyval =
    PNone
  | PBool bool
  | PInt int
  | PFloat real
  | PStr string
  | PList "pyval list"
  | PDict "(string \<times> pyval) list"

type_synonym dict = "(string \<times> pyval) list"

text \<open>\<open>d.pop(k)\<close>: the value and the dict without the key, KeyError for a missing key.\<close>

definition dict_pop :: "dict \<Rightarrow> string \<Rightarrow> error + (pyval \<times> dict)" where
  "dict_pop d k =
     (case map_of d k of
        None \<Rightarrow> Inl (KeyError k)
      | Some v \<Rightarrow> Inr (v, filter (\<lambda>kv. fst kv \<noteq> k) d))"

text \<open>An initializer as it is called, \<open>init_instance(model, **kwargs)\<close>.\<close>

type_synonym initializer =
  "nn_module list \<Rightarrow> dict \<Rightarrow> rng \<Rightarrow> error option \<times> nn_module list \<times> rng"

text \<open>Modelled from the spec: \<open>INITIALIZER_REGISTRY\<close> of
  \<open>up.utils.general.registry_factory\<close> is not among the sources.  It maps the registered
  method names (a "registry key string") to the registered functions; \<open>get\<close> of anything
  that was not registered is taken to raise.  The functions below take the registry as
  a parameter.\<close>

type_synonym registry = "string \<Rightarrow> initializer option"

definition registry_get :: "registry \<Rightarrow> pyval \<Rightarrow> initializer option" where
  "registry_get reg method = (case method of PStr s \<Rightarrow> reg s | _ \<Rightarrow> None)"

text \<open>Lines 83-88: the loop over the BatchNorm2d modules.\<close>

definition bn_body :: "nn_module \<Rightarrow> rng \<Rightarrow> error option \<times> nn_module \<times> rng" where
  "bn_body m g =
     (if kind m = KBatchNorm2d then
        (None,
         m\<lparr> weight := map_option (\<lambda>wt. fill_param wt (Fin 1)) (weight m),
            bias := map_option (\<lambda>b. replicate (length b) (Fin 0)) (bias m) \<rparr>,
         g)
      else (None, m, g))"

definition initialize ::
  "registry \<Rightarrow> nn_module list \<Rightarrow> pyval \<Rightarrow> dict \<Rightarrow> rng
     \<Rightarrow> error option \<times> nn_module list \<times> rng" where
  "initialize reg model method kwargs g =
     (case for_modules bn_body model g of
        (Some e, model, g) \<Rightarrow> (Some e, model, g)
      | (None, model, g) \<Rightarrow>
          (case registry_get reg method of
             None \<Rightarrow> (Some NotRegistered, model, g)
           | Some init_instance \<Rightarrow> init_instance model kwargs g))"

text \<open>The dict objects of the program live in a heap; a reference is an index into it.
  Configuration values are immutable trees, so a deep copy of a dict is a new object with
  the same items.\<close>

type_synonym heap = "dict list"

definition deepcopy :: "heap \<Rightarrow> nat \<Rightarrow> heap \<times> nat" where
  "deepcopy h a = (h @ [h ! a], length h)"

text \<open>\<open>initialize_from_cfg(model, cfg)\<close>: \<open>cfg\<close> is \<open>None\<close> or a reference to a dict.  The call
  \<open>initialize(model, method, **cfg)\<close> raises TypeError when a key of \<open>cfg\<close> names one of its
  two positional parameters.\<close>

definition initialize_from_cfg ::
  "registry \<Rightarrow> nn_module list \<Rightarrow> nat option \<Rightarrow> heap \<Rightarrow> rng
     \<Rightarrow> error option \<times> nn_module list \<times> rng \<times> heap" where
  "initialize_from_cfg reg model cfg h g =
     (case cfg of
        None \<Rightarrow>
          (case initialize reg model (PStr ''normal'') [(''std'', PFloat 0.01)] g of
             (r, model', g') \<Rightarrow> (r, model', g', h))
      | Some a \<Rightarrow>
          if length h \<le> a then (Some AttributeError, model, g, h)
          else
            (case deepcopy h a of
               (h, cfg) \<Rightarrow>
                 (case dict_pop (h ! cfg) ''method'' of
                    Inl e \<Rightarrow> (Some e, model, g, h)
                  | Inr (method, d) \<Rightarrow>
                      let h = h[cfg := d]
                      in if ''model'' \<in> fst ` set (h ! cfg) \<or> ''method'' \<in> fst ` set (h ! cfg)
                         then (Some TypeError, model, g, h)
                         else (case initialize reg model method (h ! cfg) g of
                                 (r, model', g') \<Rightarrow> (r, model', g', h)))))"

subsection \<open>The functions registered in this file\<close>

definition as_real :: "pyval \<Rightarrow> real option" where
  "as_real v = (case v of PFloat r \<Rightarrow> Some r | PInt i \<Rightarrow> Some (real_of_int i) | _ \<Rightarrow> None)"

definition as_int :: "pyval \<Rightarrow> int option" where
  "as_int v = (case v of PInt i \<Rightarrow> Some i | _ \<Rightarrow> None)"

definition as_str :: "pyval \<Rightarrow> string option" where
  "as_str v = (case v of PStr s \<Rightarrow> Some s | _ \<Rightarrow> None)"

text \<open>Binding \<open>**kwargs\<close> to the parameters of a function: a key that is not a parameter
  name, or a parameter without default that is missing, is a TypeError.  The typed
  functions above are called with a number, an integer or a string; a value of another
  type is given as a TypeError at the call.\<close>

definition unexpected :: "dict \<Rightarrow> string list \<Rightarrow> bool" where
  "unexpected kwargs names = (\<not> list_all (\<lambda>kv. fst kv \<in> set names) kwargs)"

definition call_constant :: initializer where
  "call_constant model kwargs g =
     (if unexpected kwargs [''val''] then (Some TypeError, model, g)
      else case map_of kwargs ''val'' of
             None \<Rightarrow> init_weights_constant model 0 g
           | Some v \<Rightarrow>
               (case as_real v of
                  None \<Rightarrow> (Some TypeError, model, g)
                | Some val \<Rightarrow> init_weights_constant model val g))"

definition call_normal :: initializer where
  "call_normal model kwargs g =
     (if unexpected kwargs [''std''] then (Some TypeError, model, g)
      else case map_of kwargs ''std'' of
             None \<Rightarrow> init_weights_normal model 0.01 g
           | Some v \<Rightarrow>
               (case as_real v of
                  None \<Rightarrow> (Some TypeError, model, g)
                | Some std \<Rightarrow> init_weights_normal model std g))"

definition call_xavier :: initializer where
  "call_xavier model kwargs g =
     (if unexpected kwargs [] then (Some TypeError, model, g) else init_weights_xavier model g)"

definition call_msra :: initializer where
  "call_msra model kwargs g =
     (if unexpected kwargs [] then (Some TypeError, model, g) else init_weights_msra model g)"

definition call_focal :: initializer where
  "call_focal model kwargs g =
     (if unexpected kwargs [''cls_loss_type'', ''init_prior'', ''num_classes'']
      then (Some TypeError, model, g)
      else case (map_option as_str (map_of kwargs ''cls_loss_type''),
                 map_option as_real (map_of kwargs ''init_prior''),
                 map_option as_int (map_of kwargs ''num_classes'')) of
             (Some (Some cls_loss_type), Some (Some init_prior), Some (Some num_classes)) \<Rightarrow>
                init_bias_focal model cls_loss_type init_prior num_classes g
           | _ \<Rightarrow> (Some TypeError, model, g))"

text \<open>The five \<open>@INITIALIZER_REGISTRY.register\<close> decorators of initializer.py.\<close>

definition INITIALIZER_REGISTRY :: registry where
  "INITIALIZER_REGISTRY =
     map_of [(''constant'', call_constant), (''normal'', call_normal),
             (''xavier'', call_xavier), (''msra'', call_msra), (''focal'', call_focal)]"

section \<open>The to_adela subcommand (to_adela.py)\<close>

text \<open>One \<open>add_argument\<close> call: the option string, \<open>dest\<close> and \<open>required\<close> (False when the
  call does not give it).\<close>

record argument =
  flag :: string
  dest :: string
  required :: bool

text \<open>The arguments that \<open>ToAdela.add_subparser\<close> declares, in order.\<close>

definition ToAdela_add_subparser :: "argument list" where
  "ToAdela_add_subparser =
     [\<lparr> flag = ''--config'', dest = ''config'', required = True \<rparr>,
      \<lparr> flag = ''--release_json'', dest = ''release_json'', required = False \<rparr>,
      \<lparr> flag = ''--save_to'', dest = ''save_to'', required = False \<rparr>,
      \<lparr> flag = ''--serialize'', dest = ''serialize'', required = False \<rparr>,
      \<lparr> flag = ''--cfg_type'', dest = ''cfg_type'', required = False \<rparr>,
      \<lparr> flag = ''--opts'', dest = ''opts'', required = False \<rparr>]"

text \<open>What argparse does for the options of a command line that it has recognised, given
  by their \<open>dest\<close>: it exits with status 2 when a required one is not among them.\<close>

definition check_required :: "argument list \<Rightarrow> string list \<Rightarrow> error option" where
  "check_required decls given =
     (if list_all (\<lambda>a. required a \<longrightarrow> dest a \<in> set given) decls then None
      else Some (SystemExit 2))"

text \<open>The parsed arguments \<open>args\<close>.\<close>

record namespace =
  config :: string
  release_json :: string
  save_to :: "string option"
  serialize :: bool
  cfg_type :: string
  opts :: "string list option"

text \<open>Modelled from the spec: \<open>load_yaml\<close>, \<open>send_info\<close> and \<open>to_adela\<close> of
  \<open>up.utils.general\<close> are not among the sources ("YAML config loading, model
  export/serialization tooling").  They are parameters: \<open>load_yaml\<close> returns a
  configuration dict or raises, the other two return or raise.  \<open>path_exists\<close> is
  \<open>os.path.exists\<close> on the file system of the run.\<close>

record environment =
  path_exists :: "string \<Rightarrow> bool"
  load_yaml :: "string \<Rightarrow> string \<Rightarrow> error + dict"
  send_info :: "dict \<Rightarrow> error option"
  to_adela :: "dict \<Rightarrow> string \<Rightarrow> string option \<Rightarrow> bool \<Rightarrow> error option"

text \<open>The calls that \<open>main\<close> makes to them, in order.\<close>

datatype call =
    Call_load_yaml string string
  | Call_send_info dict
  | Call_to_adela dict string "string option" bool

definition opts_value :: "string list option \<Rightarrow> pyval" where
  "opts_value os = (case os of None \<Rightarrow> PNone | Some xs \<Rightarrow> PList (map PStr xs))"

text \<open>\<open>cfg['args'] = {'opts': args.opts}\<close>.\<close>

definition set_item :: "dict \<Rightarrow> string \<Rightarrow> pyval \<Rightarrow> dict" where
  "set_item d k v =
     (if k \<in> fst ` set d then map (\<lambda>kv. if fst kv = k then (k, v) else kv) d else d @ [(k, v)])"

text \<open>\<open>main(args)\<close>, lines 56-63, with the \<open>assert\<close> statement executed: the error raised, if
  any, and the calls made.\<close>

definition main :: "environment \<Rightarrow> namespace \<Rightarrow> error option \<times> call list" where
  "main env args =
     (if \<not> path_exists env (config args) then (Some (AssertionError (config args)), [])
      else
        (case load_yaml env (config args) (cfg_type args) of
           Inl e \<Rightarrow> (Some e, [Call_load_yaml (config args) (cfg_type args)])
         | Inr cfg \<Rightarrow>
             let cfg = set_item cfg ''args'' (PDict [(''opts'', opts_value (opts args))])
             in (case send_info env cfg of
                   Some e \<Rightarrow>
                     (Some e, [Call_load_yaml (config args) (cfg_type args), Call_send_info cfg])
                 | None \<Rightarrow>
                     (to_adela env cfg (release_json args) (save_to args) (serialize args),
                      [Call_load_yaml (config args) (cfg_type args), Call_send_info cfg,
                       Call_to_adela cfg (release_json args) (save_to args) (serialize args)]))))"

section \<open>Example inputs\<close>

definition example_conv :: nn_module where
  "example_conv =
     \<lparr> kind = KConv2d,
       weight = Some \<lparr> pshape = [2, 1, 1, 1], pdata = [Fin 1, Fin 2] \<rparr>,
       bias = Some [Fin 3, Fin 4] \<rparr>"

definition example_bn :: nn_module where
  "example_bn = \<lparr> kind = KBatchNorm2d, weight = None, bias = Some [Fin 5] \<rparr>"

definition example_low :: tensor where
  "example_low = Input ''low_feature'' [1, 4, 4, 4]"

definition example_high :: tensor where
  "example_high = Input ''h_feature'' [1, 4, 2, 2]"

definition example_flow :: tensor where
  "example_flow = Input ''flow'' [1, 2, 2, 3]"

definition example_conv_out :: "tensor list" where
  "example_conv_out =
     [Input ''x3'' [1, 4, 8, 8], Input ''x4'' [1, 6, 4, 4], Input ''x5'' [1, 8, 2, 2]]"

definition example_head :: align_head where
  "example_head = AlignHead_init [L ''head''] 8 3 [4, 6, 8] 2"

definition example_feats :: tensor where
  "example_feats = Input ''feats'' [2, 8, 5, 7]"

definition example_cfg :: dict where
  "example_cfg = [(''method'', PStr ''focal''), (''cls_loss_type'', PStr ''sigmoid''),
                  (''init_prior'', PFloat (1 / 2)), (''num_classes'', PInt 80)]"

definition example_cfg_no_method :: dict where
  "example_cfg_no_method = [(''cls_loss_type'', PStr ''sigmoid''),
                            (''init_prior'', PFloat (1 / 2)), (''num_classes'', PInt 80)]"

definition example_env :: environment where
  "example_env =
     \<lparr> path_exists = (\<lambda>p. p = ''exp/config.yaml''),
       load_yaml = (\<lambda>p t. Inr [(''runtime'', PDict [])]),
       send_info = (\<lambda>cfg. None),
       to_adela = (\<lambda>cfg rel save ser. None) \<rparr>"

definition example_args :: "string \<Rightarrow> namespace" where
  "example_args p =
     \<lparr> config = p, release_json = ''release.json'', save_to = None, serialize = False,
       cfg_type = ''up'', opts = None \<rparr>"

section \<open>Properties of the initializers\<close>

subsection \<open>The loop over the modules\<close>

lemma for_modules_error:
  "fst (for_modules body ms g) = Some e \<Longrightarrow> \<exists>m g'. fst (body m g') = Some e"
proof (induction ms arbitrary: g)
  case Nil
  then show ?case by simp
next
  case (Cons m ms)
  obtain r m' g' where b: "body m g = (r, m', g')" by (cases "body m g") auto
  show ?case
  proof (cases r)
    case None
    obtain r2 ms' g'' where f: "for_modules body ms g' = (r2, ms', g'')"
      by (cases "for_modules body ms g'") auto
    from Cons.prems b None f have "fst (for_modules body ms g') = Some e" by simp
    then show ?thesis by (rule Cons.IH)
  next
    case (Some e')
    with Cons.prems b have "e' = e" by simp
    with b Some have "fst (body m g) = Some e" by simp
    then show ?thesis by blast
  qed
qed

lemma for_modules_None:
  "for_modules body ms g = (None, ms', g') \<Longrightarrow>
     list_all2 (\<lambda>m m'. \<exists>g1 g2. body m g1 = (None, m', g2)) ms ms'"
proof (induction ms arbitrary: g ms' g')
  case Nil
  then show ?case by simp
next
  case (Cons m ms)
  obtain r m1 g1 where b: "body m g = (r, m1, g1)" by (cases "body m g") auto
  obtain r2 ms2 g2 where f: "for_modules body ms g1 = (r2, ms2, g2)"
    by (cases "for_modules body ms g1") auto
  from Cons.prems b f have r: "r = None" by (cases r) auto
  with Cons.prems b f have eqs: "r2 = None" "ms' = m1 # ms2" by auto
  from f eqs have "list_all2 (\<lambda>m m'. \<exists>g1 g2. body m g1 = (None, m', g2)) ms ms2"
    using Cons.IH by blast
  with b r eqs show ?case by auto
qed

text \<open>A body whose error and module do not depend on the generator gives a loop whose
  error and modules do not depend on it.\<close>

lemma for_modules_rng_free:
  assumes "\<And>m g1 g2. fst (body m g1) = fst (body m g2)
                     \<and> fst (snd (body m g1)) = fst (snd (body m g2))"
  shows "fst (for_modules body ms g1) = fst (for_modules body ms g2)
         \<and> fst (snd (for_modules body ms g1)) = fst (snd (for_modules body ms g2))"
proof (induction ms arbitrary: g1 g2)
  case Nil
  then show ?case by simp
next
  case (Cons m ms)
  obtain r m1 h1 where b1: "body m g1 = (r, m1, h1)" by (cases "body m g1") auto
  obtain r' m2 h2 where b2: "body m g2 = (r', m2, h2)" by (cases "body m g2") auto
  from assms[of m g1 g2] b1 b2 have same: "r' = r" "m2 = m1" by auto
  show ?case
  proof (cases r)
    case None
    obtain q1 ms1 k1 where f1: "for_modules body ms h1 = (q1, ms1, k1)"
      by (cases "for_modules body ms h1") auto
    obtain q2 ms2 k2 where f2: "for_modules body ms h2 = (q2, ms2, k2)"
      by (cases "for_modules body ms h2") auto
    from Cons.IH[of h1 h2] f1 f2 have "q2 = q1" "ms2 = ms1" by auto
    with b1 b2 same None f1 f2 show ?thesis by simp
  next
    case (Some e)
    with b1 b2 same show ?thesis by simp
  qed
qed

lemma list_all2_mono_rel:
  "list_all2 P xs ys \<Longrightarrow> (\<And>x y. P x y \<Longrightarrow> Q x y) \<Longrightarrow> list_all2 Q xs ys"
  by (induction rule: list_all2_induct) auto

subsection \<open>init_bias_focal\<close>

lemma neg_log_odds_Inr:
  "neg_log_odds p = Inr c \<longleftrightarrow> (c = - ln (1 / p - 1) \<and> 0 < p \<and> p < 1)"
proof -
  have "(1 / p - 1 \<le> 0) = (\<not> (0 < p \<and> p < 1))" if "p \<noteq> 0"
  proof (cases "0 < p")
    case True
    then show ?thesis by (auto simp: field_simps)
  next
    case False
    with that have "p < 0" by simp
    then have "1 / p < 0" by simp
    with False show ?thesis by simp
  qed
  then show ?thesis by (auto simp: neg_log_odds_def)
qed

lemma focal_softmax_fill_error:
  "fst (focal_softmax_fill p nc is b) = Some e \<Longrightarrow> e = ValueError"
proof (induction "is" arbitrary: b)
  case Nil
  then show ?case by simp
next
  case (Cons i rest)
  let ?x = "fdiv (fmul (foldl fadd (Fin 0)
                         (map fexp (py_slice b (i + 1) (nat (int i + 1 + nc - 1))))) (1 - p)) p"
  show ?case
  proof (cases "math_log ?x")
    case (Inl e')
    then have "e' = ValueError"
      by (cases ?x) (auto split: if_splits)
    with Cons.prems Inl show ?thesis by (simp add: Let_def)
  next
    case (Inr v)
    with Cons.prems have "fst (focal_softmax_fill p nc rest (b[i := v])) = Some e"
      by (simp add: Let_def)
    then show ?thesis by (rule Cons.IH)
  qed
qed

lemma focal_softmax_fill_error_pair:
  "focal_softmax_fill p nc is b = (Some e, b') \<Longrightarrow> e = ValueError"
  using focal_softmax_fill_error[of p nc "is" b e] by simp

lemma focal_sigmoid_body_error:
  "fst (focal_sigmoid_body p m g) = Some e \<Longrightarrow>
     e \<in> {AttributeError, ZeroDivisionError, ValueError, RuntimeError}"
  by (auto simp: focal_sigmoid_body_def tensor_normal_def neg_log_odds_def Let_def
           split: option.splits sum.splits if_splits)

lemma focal_softmax_body_error:
  "fst (focal_softmax_body p nc m g) = Some e \<Longrightarrow> e \<in> {AttributeError, ValueError}"
  by (auto simp: focal_softmax_body_def tensor_normal_def py_range_def
           split: option.splits sum.splits if_splits prod.splits
           dest: focal_softmax_fill_error_pair)

lemma focal_sigmoid_body_rng_free:
  "fst (focal_sigmoid_body p m g1) = fst (focal_sigmoid_body p m g2)
   \<and> fst (snd (focal_sigmoid_body p m g1)) = fst (snd (focal_sigmoid_body p m g2))"
  by (auto simp: focal_sigmoid_body_def tensor_normal_def Let_def
           split: option.splits sum.splits if_splits)

text \<open>
  Claim C5.  \<open>init_bias_focal\<close> raises NotImplementedError if and only if \<open>cls_loss_type\<close> is
  neither \<open>'sigmoid'\<close> nor \<open>'softmax'\<close>; the error then names the given string, and the
  modules and the random number generator are as they were before the call.
\<close>

theorem init_bias_focal_not_supported:
  "((\<exists>s. fst (init_bias_focal model cls_loss_type init_prior num_classes g)
          = Some (NotImplementedError s))
      \<longleftrightarrow> cls_loss_type \<noteq> ''sigmoid'' \<and> cls_loss_type \<noteq> ''softmax'')
   \<and> (cls_loss_type \<noteq> ''sigmoid'' \<and> cls_loss_type \<noteq> ''softmax'' \<longrightarrow>
        init_bias_focal model cls_loss_type init_prior num_classes g
          = (Some (NotImplementedError (cls_loss_type @ '' is not supported'')), model, g))"
proof -
  have sig: "fst (for_modules (focal_sigmoid_body init_prior) model g)
               \<noteq> Some (NotImplementedError s)" for s
  proof
    assume "fst (for_modules (focal_sigmoid_body init_prior) model g)
              = Some (NotImplementedError s)"
    then obtain m g' where
      "fst (focal_sigmoid_body init_prior m g') = Some (NotImplementedError s)"
      using for_modules_error by blast
    then show False using focal_sigmoid_body_error by fastforce
  qed
  have soft: "fst (for_modules (focal_softmax_body init_prior num_classes) model g)
                \<noteq> Some (NotImplementedError s)" for s
  proof
    assume "fst (for_modules (focal_softmax_body init_prior num_classes) model g)
              = Some (NotImplementedError s)"
    then obtain m g' where
      "fst (focal_softmax_body init_prior num_classes m g') = Some (NotImplementedError s)"
      using for_modules_error by blast
    then show False using focal_softmax_body_error by fastforce
  qed
  show ?thesis using sig soft by (simp add: init_bias_focal_def)
qed

theorem init_bias_focal_not_supported_witness:
  "''tanh'' \<noteq> ''sigmoid'' \<and> ''tanh'' \<noteq> ''softmax''
   \<and> init_bias_focal [example_conv, example_bn] ''tanh'' (1 / 100) 80 (\<lambda>k. real k)
       = (Some (NotImplementedError ''tanh is not supported''),
          [example_conv, example_bn], (\<lambda>k. real k))"
proof -
  have h: "''tanh'' \<noteq> ''sigmoid'' \<and> ''tanh'' \<noteq> ''softmax''" by simp
  from init_bias_focal_not_supported
         [of "[example_conv, example_bn]" "''tanh''" "1 / 100" 80 "\<lambda>k. real k"] h
  show ?thesis by simp
qed

text \<open>
  Claim C9.  When \<open>init_bias_focal\<close> returns for \<open>cls_loss_type == 'sigmoid'\<close>, every Conv2d
  and Linear module has its bias filled with the constant \<open>-log(1.0 / init_prior - 1.0)\<close>
  and is otherwise as before, every other module is unchanged, and the resulting modules
  are the same for every state of the random number generator: the normal samples drawn
  in between are overwritten.
\<close>

theorem init_bias_focal_sigmoid_constant:
  assumes "init_bias_focal model ''sigmoid'' init_prior num_classes g = (None, model', g')"
  shows "list_all2
           (\<lambda>m m'. if kind m = KConv2d \<or> kind m = KLinear
                    then \<exists>b. bias m = Some b
                           \<and> m' = m\<lparr> bias := Some (replicate (length b)
                                                       (Fin (- ln (1.0 / init_prior - 1.0)))) \<rparr>
                    else m' = m)
           model model'
         \<and> (\<forall>g2. fst (init_bias_focal model ''sigmoid'' init_prior num_classes g2) = None
                 \<and> fst (snd (init_bias_focal model ''sigmoid'' init_prior num_classes g2))
                     = model')"
proof -
  let ?body = "focal_sigmoid_body init_prior"
  from assms have run: "for_modules ?body model g = (None, model', g')"
    by (simp add: init_bias_focal_def)
  then have "list_all2 (\<lambda>m m'. \<exists>g1 g2. ?body m g1 = (None, m', g2)) model model'"
    by (rule for_modules_None)
  then have first: "list_all2
           (\<lambda>m m'. if kind m = KConv2d \<or> kind m = KLinear
                    then \<exists>b. bias m = Some b
                           \<and> m' = m\<lparr> bias := Some (replicate (length b)
                                                       (Fin (- ln (1.0 / init_prior - 1.0)))) \<rparr>
                    else m' = m)
           model model'"
  proof (rule list_all2_mono_rel)
    fix m m'
    assume "\<exists>g1 g2. ?body m g1 = (None, m', g2)"
    then obtain g1 g2 where "?body m g1 = (None, m', g2)" by blast
    then show "if kind m = KConv2d \<or> kind m = KLinear
               then \<exists>b. bias m = Some b
                      \<and> m' = m\<lparr> bias := Some (replicate (length b)
                                                  (Fin (- ln (1.0 / init_prior - 1.0)))) \<rparr>
               else m' = m"
      by (auto simp: focal_sigmoid_body_def tensor_normal_def Let_def neg_log_odds_Inr
               split: option.splits sum.splits if_splits)
  qed
  have second: "fst (init_bias_focal model ''sigmoid'' init_prior num_classes g2) = None
                \<and> fst (snd (init_bias_focal model ''sigmoid'' init_prior num_classes g2))
                    = model'"
    for g2
  proof -
    have "fst (for_modules ?body model g2) = fst (for_modules ?body model g)
          \<and> fst (snd (for_modules ?body model g2)) = fst (snd (for_modules ?body model g))"
      by (rule for_modules_rng_free) (rule focal_sigmoid_body_rng_free)
    with run show ?thesis by (simp add: init_bias_focal_def)
  qed
  from first second show ?thesis by blast
qed

theorem init_bias_focal_sigmoid_constant_witness:
  "init_bias_focal [example_conv, example_bn] ''sigmoid'' (1 / 2) 80 (\<lambda>k. real k)
     = (None, [example_conv\<lparr> bias := Some [Fin 0, Fin 0] \<rparr>, example_bn], (\<lambda>k. real (k + 2)))
   \<and> fst (snd (init_bias_focal [example_conv, example_bn] ''sigmoid'' (1 / 2) 80 (\<lambda>k. 7)))
       = [example_conv\<lparr> bias := Some [Fin 0, Fin 0] \<rparr>, example_bn]"
proof -
  have h: "init_bias_focal [example_conv, example_bn] ''sigmoid'' (1 / 2) 80 (\<lambda>k. real k)
     = (None, [example_conv\<lparr> bias := Some [Fin 0, Fin 0] \<rparr>, example_bn], (\<lambda>k. real (k + 2)))"
    by (simp add: init_bias_focal_def focal_sigmoid_body_def neg_log_odds_def
                  tensor_normal_def example_conv_def example_bn_def)
  from init_bias_focal_sigmoid_constant[OF h] h show ?thesis by blast
qed

subsection \<open>initialize_from_cfg and the to_adela subcommand\<close>

text \<open>
  Claim C6.  A missing required configuration field raises at once.  \<open>initialize_from_cfg\<close>
  with a dict that has no \<open>'method'\<close> key raises KeyError with the modules and the random
  number generator untouched (nothing has been initialised; the heap has only gained the
  copy).  \<open>add_subparser\<close> declares \<open>--config\<close> once, as required, so a command line without
  it makes argparse exit; and \<open>main\<close> raises AssertionError without calling anything when
  the config path does not exist, while for an existing path its first call is
  \<open>load_yaml\<close>.
\<close>

theorem missing_configuration_raises:
  "(a < length h \<and> map_of (h ! a) ''method'' = None \<longrightarrow>
      initialize_from_cfg reg model (Some a) h g
        = (Some (KeyError ''method''), model, g, h @ [h ! a]))
   \<and> filter (\<lambda>d. flag d = ''--config'') ToAdela_add_subparser
       = [\<lparr> flag = ''--config'', dest = ''config'', required = True \<rparr>]
   \<and> (''config'' \<notin> set given \<longrightarrow>
        check_required ToAdela_add_subparser given = Some (SystemExit 2))
   \<and> (\<not> path_exists env (config args) \<longrightarrow>
        main env args = (Some (AssertionError (config args)), []))
   \<and> (path_exists env (config args) \<longrightarrow>
        (\<exists>calls. snd (main env args) = Call_load_yaml (config args) (cfg_type args) # calls))"
  by (auto simp: initialize_from_cfg_def deepcopy_def dict_pop_def nth_append
                 ToAdela_add_subparser_def check_required_def main_def Let_def
           split: sum.splits option.splits)

theorem missing_configuration_raises_witness:
  "(0 < length [example_cfg_no_method] \<and> map_of ([example_cfg_no_method] ! 0) ''method'' = None)
   \<and> initialize_from_cfg INITIALIZER_REGISTRY [example_conv, example_bn] (Some 0)
         [example_cfg_no_method] (\<lambda>k. real k)
       = (Some (KeyError ''method''), [example_conv, example_bn], (\<lambda>k. real k),
          [example_cfg_no_method, example_cfg_no_method])
   \<and> ''config'' \<notin> set [''save_to'', ''serialize'']
   \<and> check_required ToAdela_add_subparser [''save_to'', ''serialize''] = Some (SystemExit 2)
   \<and> \<not> path_exists example_env (config (example_args ''exp/other.yaml''))
   \<and> main example_env (example_args ''exp/other.yaml'')
       = (Some (AssertionError ''exp/other.yaml''), [])
   \<and> path_exists example_env (config (example_args ''exp/config.yaml''))
   \<and> (\<exists>calls. snd (main example_env (example_args ''exp/config.yaml''))
                 = Call_load_yaml ''exp/config.yaml'' ''up'' # calls)"
proof -
  have h1: "0 < length [example_cfg_no_method]
            \<and> map_of ([example_cfg_no_method] ! 0) ''method'' = None"
    by (simp add: example_cfg_no_method_def)
  have h2: "''config'' \<notin> set [''save_to'', ''serialize'']" by simp
  have h3: "\<not> path_exists example_env (config (example_args ''exp/other.yaml''))"
    by (simp add: example_env_def example_args_def)
  have h4: "path_exists example_env (config (example_args ''exp/config.yaml''))"
    by (simp add: example_env_def example_args_def)
  from missing_configuration_raises
         [of 0 "[example_cfg_no_method]" INITIALIZER_REGISTRY "[example_conv, example_bn]"
             "\<lambda>k. real k" "[''save_to'', ''serialize'']" example_env
             "example_args ''exp/other.yaml''"]
       missing_configuration_raises
         [of 0 "[example_cfg_no_method]" INITIALIZER_REGISTRY "[example_conv, example_bn]"
             "\<lambda>k. real k" "[''save_to'', ''serialize'']" example_env
             "example_args ''exp/config.yaml''"]
       h1 h2 h3 h4
  show ?thesis by (simp add: example_args_def)
qed

text \<open>
  Claim C10.  \<open>initialize_from_cfg\<close> does not mutate the dict it is given: whatever the call
  does, the caller's dict, and every dict that existed before the call, is afterwards
  what it was; \<open>'method'\<close> is popped from the copy.
\<close>

theorem initialize_from_cfg_keeps_cfg:
  "a < length h \<Longrightarrow>
     (case initialize_from_cfg reg model (Some a) h g of
        (r, model', g', h') \<Rightarrow> h' ! a = h ! a \<and> take (length h) h' = h)"
  by (auto simp: initialize_from_cfg_def deepcopy_def Let_def nth_append
           split: sum.splits prod.splits)

theorem initialize_from_cfg_keeps_cfg_witness:
  "0 < length [example_cfg]
   \<and> initialize_from_cfg INITIALIZER_REGISTRY [example_conv, example_bn] (Some 0)
         [example_cfg] (\<lambda>k. real k)
       = (None,
          [example_conv\<lparr> bias := Some [Fin 0, Fin 0] \<rparr>, example_bn\<lparr> bias := Some [Fin 0] \<rparr>],
          (\<lambda>k. real (k + 2)), [example_cfg, example_cfg_no_method])
   \<and> [example_cfg, example_cfg_no_method] ! 0 = [example_cfg] ! 0
   \<and> take (length [example_cfg]) [example_cfg, example_cfg_no_method] = [example_cfg]"
proof -
  have h: "0 < length [example_cfg]" by simp
  have run: "initialize_from_cfg INITIALIZER_REGISTRY [example_conv, example_bn] (Some 0)
                [example_cfg] (\<lambda>k. real k)
             = (None,
                [example_conv\<lparr> bias := Some [Fin 0, Fin 0] \<rparr>,
                 example_bn\<lparr> bias := Some [Fin 0] \<rparr>],
                (\<lambda>k. real (k + 2)), [example_cfg, example_cfg_no_method])"
    by (simp add: initialize_from_cfg_def deepcopy_def dict_pop_def example_cfg_def
          example_cfg_no_method_def initialize_def bn_body_def example_bn_def example_conv_def
          registry_get_def INITIALIZER_REGISTRY_def call_focal_def unexpected_def as_str_def
          as_real_def as_int_def init_bias_focal_def focal_sigmoid_body_def neg_log_odds_def
          tensor_normal_def)
  from initialize_from_cfg_keeps_cfg
         [OF h, of INITIALIZER_REGISTRY "[example_conv, example_bn]" "\<lambda>k. real k"] run h
  show ?thesis by simp
qed

section \<open>Properties of the decoder\<close>

subsection \<open>Shapes of single operations\<close>

lemma run_Some: "run t = Some y \<longleftrightarrow> (y = t \<and> tsize t \<noteq> None)"
  by (auto simp: run_def)

lemma dims4_Some: "dims4 s = Some (n, c, h, w) \<longleftrightarrow> s = Some [n, c, h, w]"
  by (cases s rule: dims4.cases) auto

lemma conv_shape_Some:
  "conv_shape cv s = Some r \<longleftrightarrow>
     (\<exists>n h w. s = Some [n, in_channels cv, h, w] \<and> 0 < kernel cv
        \<and> kernel cv \<le> h + 2 * pad cv \<and> kernel cv \<le> w + 2 * pad cv
        \<and> r = [n, out_channels cv, h + 2 * pad cv - kernel cv + 1,
                 w + 2 * pad cv - kernel cv + 1])"
  by (auto simp: conv_shape_def bind_eq_Some_conv dims4_Some)

lemma upsample_shape_Some:
  "upsample_shape s sz = Some r \<longleftrightarrow>
     (\<exists>n c h w. s = Some [n, c, h, w] \<and> 0 < h \<and> 0 < w \<and> 0 < fst sz \<and> 0 < snd sz
        \<and> r = [n, c, fst sz, snd sz])"
  by (auto simp: upsample_shape_def bind_eq_Some_conv dims4_Some)

lemma cat_shape_pair_1:
  "cat_shape [[n, c, h, w], [n', c', h', w']] (Suc 0) = Some r \<longleftrightarrow>
     (n' = n \<and> h' = h \<and> w' = w \<and> r = [n, c + c', h, w])"
  by (auto simp: cat_shape_def)

lemma tsize_Cat2:
  "tsize (Cat [a, b] d) = do { s \<leftarrow> tsize a; t \<leftarrow> tsize b; cat_shape [s, t] d }"
  by (simp split: option.splits)

subsection \<open>AlignedModule\<close>

lemma warp_args_Some:
  "AlignedModule_warp_args m (low, high) = Some (inp, flow, sz) \<longleftrightarrow>
     (\<exists>n c h w. tsize low = Some [n, c, h, w] \<and> sz = (h, w) \<and> inp = high
        \<and> flow = Conv2d (flow_make m)
                   (Cat [Upsample (Conv2d (down_h m) high) (h, w), Conv2d (down_l m) low] 1)
        \<and> tsize flow \<noteq> None)"
  unfolding AlignedModule_warp_args_def
  apply (simp add: run_Some bind_eq_Some_conv dims4_Some Let_def del: tsize.simps)
  apply (auto simp add: tsize_Cat2 bind_eq_Some_conv conv_shape_Some upsample_shape_Some
              simp del: tsize.simps(8))
  done

text \<open>The spatial size of the flow for any \<open>kernel_size\<close>: with the padding 1 it is
  \<open>h + 3 - kernel_size\<close>, which is \<open>h\<close> for the default \<open>kernel_size=3\<close> only.\<close>

lemma flow_size_kernel:
  "tsize low = Some [n, c, h, w] \<Longrightarrow>
   AlignedModule_warp_args (AlignedModule_init nm inplane outplane kernel_size) (low, high)
     = Some (inp, flow, sz) \<Longrightarrow>
   tsize flow = Some [n, 2, h + 2 - kernel_size + 1, w + 2 - kernel_size + 1]
   \<and> kernel_size \<le> h + 2 \<and> kernel_size \<le> w + 2 \<and> sz = (h, w) \<and> inp = high"
  apply (simp add: warp_args_Some del: tsize.simps)
  apply (auto simp add: AlignedModule_init_def tsize_Cat2 bind_eq_Some_conv conv_shape_Some
                        upsample_shape_Some cat_shape_pair_1
              simp del: tsize.simps(8))
  done

lemma flow_size_kernel_3:
  "tsize low = Some [n, c, h, w] \<Longrightarrow>
   AlignedModule_warp_args (AlignedModule_init nm inplane outplane 3) (low, high)
     = Some (inp, flow, sz) \<Longrightarrow>
   tsize flow = Some [n, 2, h, w] \<and> sz = (h, w) \<and> inp = high"
  using flow_size_kernel[of low n c h w nm inplane outplane 3 high inp flow sz] by simp

text \<open>
  Claim C2.  The flow passed to \<open>flow_warp\<close> should have the spatial size of
  \<open>low_feature\<close> for every \<open>kernel_size\<close>.  The constructor pads \<open>flow_make\<close> with the
  constant 1, which fits \<open>kernel_size=3\<close> only (\<open>flow_size_kernel\<close>): for \<open>AlignedModule(4, 2, kernel_size=1)\<close> and
  a \<open>low_feature\<close> of size 4 x 4 the flow is 6 x 6 while \<open>size\<close> is (4, 4), and \<open>forward\<close>
  raises when \<open>flow_warp\<close> adds the flow to its 4 x 4 grid.
\<close>

theorem flow_size_kernel_1:
  "map_option (\<lambda>(inp, flow, sz). (tsize flow, sz))
     (AlignedModule_warp_args (AlignedModule_init [L ''align''] 4 2 1)
        (example_low, example_high))
     = Some (Some [1, 2, 6, 6], (4, 4))
   \<and> AlignedModule_forward (AlignedModule_init [L ''align''] 4 2 1) (example_low, example_high)
       = None"
  by code_simp

subsection \<open>PSPModule\<close>

lemma those_map_Some:
  "(\<And>x. x \<in> set xs \<Longrightarrow> f x = Some (g x)) \<Longrightarrow> those (map f xs) = Some (map g xs)"
  by (induction xs) auto

lemma cat_shape_channels:
  assumes "ss \<noteq> []" and "\<And>t. t \<in> set ss \<Longrightarrow> \<exists>c. t = [n, c, h, w]"
  shows "cat_shape ss (Suc 0) = Some [n, sum_list (map (\<lambda>t. t ! 1) ss), h, w]"
proof (cases ss)
  case Nil
  with assms show ?thesis by simp
next
  case (Cons s rest)
  from assms(2) Cons obtain c where s: "s = [n, c, h, w]" by auto
  have "list_all (\<lambda>t. length t = length s \<and> take (Suc 0) t = take (Suc 0) s
                       \<and> drop (Suc (Suc 0)) t = drop (Suc (Suc 0)) s) rest"
    unfolding list_all_iff
  proof
    fix t assume "t \<in> set rest"
    with assms(2) Cons obtain c' where "t = [n, c', h, w]" by auto
    with s show "length t = length s \<and> take (Suc 0) t = take (Suc 0) s
                 \<and> drop (Suc (Suc 0)) t = drop (Suc (Suc 0)) s" by simp
  qed
  with Cons s show ?thesis by (simp add: cat_shape_def)
qed

lemma stage_forward_make_stage:
  assumes "tsize feats = Some [n, inplanes, h, w]" "0 < h" "0 < w" "0 < sz"
  shows "stage_forward (make_stage nm inplanes outp sz) feats
           = Some (Norm (stage_bn (make_stage nm inplanes outp sz))
                    (Conv2d (stage_conv (make_stage nm inplanes outp sz))
                       (AdaptiveAvgPool2d sz feats)))"
    and "tsize (Norm (stage_bn (make_stage nm inplanes outp sz))
                    (Conv2d (stage_conv (make_stage nm inplanes outp sz))
                       (AdaptiveAvgPool2d sz feats))) = Some [n, outp, sz, sz]"
  using assms
  by (simp_all add: stage_forward_def make_stage_def run_def pool_shape_def conv_shape_def norm_shape_def)


lemma stages_init:
  "st \<in> set (stages (PSPModule_init nm inplanes outp sizes)) \<Longrightarrow>
     \<exists>nm' sz. sz \<in> set sizes \<and> st = make_stage nm' inplanes outp sz"
proof -
  assume "st \<in> set (stages (PSPModule_init nm inplanes outp sizes))"
  then obtain a where a: "a < length sizes"
    and st: "st = make_stage (nm @ [L ''stages'', I a]) inplanes outp (sizes ! a)"
    by (auto simp: PSPModule_init_def in_set_enumerate_eq)
  from a have "sizes ! a \<in> set sizes" by simp
  with st show ?thesis by blast
qed

lemma prior_make_stage: "prior (make_stage nm inplanes outp sz) = sz"
  by (simp add: make_stage_def)

lemma map_prior_stages: "map prior (stages (PSPModule_init nm inplanes outp sizes)) = sizes"
  by (simp add: PSPModule_init_def comp_def case_prod_unfold prior_make_stage)

lemma branch_of_stage:
  assumes "tsize feats = Some [n, inplanes, h, w]" "0 < h" "0 < w" "\<forall>s\<in>set sizes. 0 < s"
    and "st \<in> set (stages (PSPModule_init nm inplanes outp sizes))"
  shows "do { y \<leftarrow> stage_forward st feats; run (Upsample y (h, w)) }
           = Some (pooled_branch st feats (h, w))"
    and "tsize (pooled_branch st feats (h, w)) = Some [n, outp, h, w]"
proof -
  from stages_init[OF assms(5)] obtain nm' sz where
    sz: "sz \<in> set sizes" and st: "st = make_stage nm' inplanes outp sz" by blast
  from sz assms(4) have pos: "0 < sz" by simp
  have pr: "prior st = sz" by (simp add: st make_stage_def)
  note sf = stage_forward_make_stage[OF assms(1-3) pos, of nm' outp]
  from sf(2) assms(2,3) pos show 2: "tsize (pooled_branch st feats (h, w)) = Some [n, outp, h, w]"
    by (simp add: pooled_branch_def st prior_make_stage upsample_shape_def del: tsize.simps(2,3,6))
  from sf(1) 2 show "do { y \<leftarrow> stage_forward st feats; run (Upsample y (h, w)) }
           = Some (pooled_branch st feats (h, w))"
    by (simp add: st prior_make_stage pooled_branch_def run_def del: tsize.simps)
qed

lemma PSPModule_priors_init:
  assumes "tsize feats = Some [n, inplanes, h, w]" and "0 < h" and "0 < w"
    and "\<forall>s\<in>set sizes. 0 < s"
  shows "PSPModule_priors (PSPModule_init nm inplanes outp sizes) feats
           = Some (map (\<lambda>st. pooled_branch st feats (h, w))
                       (stages (PSPModule_init nm inplanes outp sizes)) @ [feats])
         \<and> map prior (stages (PSPModule_init nm inplanes outp sizes)) = sizes
         \<and> (\<forall>st\<in>set (stages (PSPModule_init nm inplanes outp sizes)).
               tsize (pooled_branch st feats (h, w)) = Some [n, outp, h, w])
         \<and> tsize (Cat (map (\<lambda>st. pooled_branch st feats (h, w))
                           (stages (PSPModule_init nm inplanes outp sizes)) @ [feats]) 1)
             = Some [n, inplanes + length sizes * outp, h, w]
         \<and> PSPModule_forward (PSPModule_init nm inplanes outp sizes) feats
             = bottleneck (PSPModule_init nm inplanes outp sizes)
                 (Cat (map (\<lambda>st. pooled_branch st feats (h, w))
                           (stages (PSPModule_init nm inplanes outp sizes)) @ [feats]) 1)"
proof -
  let ?m = "PSPModule_init nm inplanes outp sizes"
  let ?bs = "map (\<lambda>st. pooled_branch st feats (h, w)) (stages ?m)"
  have ups: "those (map (\<lambda>stage. do { y \<leftarrow> stage_forward stage feats; run (Upsample y (h, w)) })
                        (stages ?m)) = Some ?bs"
    by (rule those_map_Some) (rule branch_of_stage(1)[OF assms])
  with assms(1) have priors: "PSPModule_priors ?m feats = Some (?bs @ [feats])"
    by (simp add: PSPModule_priors_def)
  have sizes: "\<forall>st\<in>set (stages ?m). tsize (pooled_branch st feats (h, w)) = Some [n, outp, h, w]"
    using branch_of_stage(2)[OF assms] by blast
  have len: "length (stages ?m) = length sizes"
    using map_prior_stages[of nm inplanes outp sizes] by (metis length_map)
  have "those (map tsize (?bs @ [feats]))
          = Some (map (\<lambda>st. [n, outp, h, w]) (stages ?m) @ [[n, inplanes, h, w]])"
  proof -
    have "map tsize ?bs = map Some (map (\<lambda>st. [n, outp, h, w]) (stages ?m))"
      using sizes by simp
    with assms(1) have "map tsize (?bs @ [feats])
            = map Some (map (\<lambda>st. [n, outp, h, w]) (stages ?m) @ [[n, inplanes, h, w]])"
      by (simp only: map_append list.map)
    moreover have "those (map Some xs) = Some xs" for xs :: "shape list"
      by (induction xs) auto
    ultimately show ?thesis by (simp only:)
  qed
  moreover have "cat_shape (map (\<lambda>st. [n, outp, h, w]) (stages ?m) @ [[n, inplanes, h, w]]) (Suc 0)
                   = Some [n, sum_list (map (\<lambda>t. t ! 1)
                                (map (\<lambda>st. [n, outp, h, w]) (stages ?m) @ [[n, inplanes, h, w]])), h, w]"
    by (rule cat_shape_channels) auto
  moreover have "sum_list (map (\<lambda>t. t ! 1)
                     (map (\<lambda>st. [n, outp, h, w]) (stages ?m) @ [[n, inplanes, h, w]]))
                   = inplanes + length sizes * outp"
    by (simp add: comp_def sum_list_triv len)
  ultimately have cat: "tsize (Cat (?bs @ [feats]) 1) = Some [n, inplanes + length sizes * outp, h, w]"
    by simp
  from priors cat have "PSPModule_forward ?m feats = bottleneck ?m (Cat (?bs @ [feats]) 1)"
    by (simp add: PSPModule_forward_def run_def del: tsize.simps)
  with priors sizes cat map_prior_stages show ?thesis by blast
qed


lemma cat_shape_member:
  assumes "cat_shape ss (Suc 0) = Some r" and "[n, c, h, w] \<in> set ss"
  shows "\<exists>c'. r = [n, c', h, w]"
proof (cases ss)
  case Nil
  with assms show ?thesis by simp
next
  case (Cons s rest)
  with assms(1) have ok: "Suc 0 < length s"
      "list_all (\<lambda>t. length t = length s \<and> take (Suc 0) t = take (Suc 0) s
                       \<and> drop (Suc (Suc 0)) t = drop (Suc (Suc 0)) s) rest"
      and r: "r = take (Suc 0) s @ [sum_list (map (\<lambda>t. t ! Suc 0) ss)] @ drop (Suc (Suc 0)) s"
    by (auto simp: cat_shape_def split: if_splits)
  have "take (Suc 0) s = [n] \<and> drop (Suc (Suc 0)) s = [h, w]"
  proof (cases "s = [n, c, h, w]")
    case True
    then show ?thesis by simp
  next
    case False
    with assms(2) Cons have "[n, c, h, w] \<in> set rest" by auto
    with ok(2) have "take (Suc 0) [n, c, h, w] = take (Suc 0) s
                     \<and> drop (Suc (Suc 0)) [n, c, h, w] = drop (Suc (Suc 0)) s"
      by (auto simp: list_all_iff)
    then show ?thesis by simp
  qed
  with r show ?thesis by simp
qed

lemma those_map_tsize:
  "those (map tsize xs) = Some ss \<Longrightarrow> x \<in> set xs \<Longrightarrow> tsize x = Some s \<Longrightarrow> s \<in> set ss"
proof (induction xs arbitrary: ss)
  case Nil
  then show ?case by simp
next
  case (Cons a xs)
  then show ?case by (auto split: option.splits)
qed

lemma tsize_Cat_member:
  assumes "tsize (Cat xs (Suc 0)) = Some r" and "x \<in> set xs" and "tsize x = Some [n, c, h, w]"
  shows "\<exists>c'. r = [n, c', h, w]"
proof -
  from assms(1) obtain ss where ss: "those (map tsize xs) = Some ss"
    and cat: "cat_shape ss (Suc 0) = Some r"
    by (auto simp: bind_eq_Some_conv)
  from those_map_tsize[OF ss assms(2,3)] have "[n, c, h, w] \<in> set ss" .
  with cat show ?thesis by (rule cat_shape_member)
qed

lemma bottleneck_size:
  assumes "bottleneck (PSPModule_init nm inplanes outp sizes) x = Some y"
    and "tsize x = Some [n, c, h, w]"
  shows "tsize y = Some [n, outp, h + 2, w + 2]"
  using assms
  by (auto simp: bottleneck_def PSPModule_init_def run_Some bind_eq_Some_conv conv_shape_Some
                 norm_shape_def dims4_Some split: if_splits)

lemma bottleneck_returns:
  assumes "tsize x = Some [n, inplanes + length sizes * outp, h, w]"
  shows "\<exists>y. bottleneck (PSPModule_init nm inplanes outp sizes) x = Some y"
  using assms
  by (simp add: bottleneck_def PSPModule_init_def run_def conv_shape_def norm_shape_def)

lemma PSPModule_priors_last:
  "PSPModule_priors m feats = Some ps \<Longrightarrow> feats \<in> set ps"
  by (auto simp: PSPModule_priors_def bind_eq_Some_conv Let_def split: if_splits)

text \<open>
  Claim C7.  For an input of shape \<open>(n, inplanes, h, w)\<close>, \<open>PSPModule.forward\<close> builds one
  branch per entry of \<open>sizes\<close>: average pooling to that size, the stage's convolution and
  normalization, bilinear upsampling to \<open>(h, w)\<close>; every branch has shape
  \<open>(n, out_planes, h, w)\<close>.  The branches, followed by the input itself, are concatenated
  along the channels, and the bottleneck is applied to this tensor of
  \<open>inplanes + len(sizes) * out_planes\<close> channels.
\<close>

theorem PSPModule_priors_concat:
  assumes "tsize feats = Some [n, inplanes, h, w]" and "0 < h" and "0 < w"
    and "\<forall>s\<in>set sizes. 0 < s"
  shows "PSPModule_priors (PSPModule_init nm inplanes outp sizes) feats
           = Some (map (\<lambda>st. pooled_branch st feats (h, w))
                       (stages (PSPModule_init nm inplanes outp sizes)) @ [feats])
         \<and> map prior (stages (PSPModule_init nm inplanes outp sizes)) = sizes
         \<and> (\<forall>st\<in>set (stages (PSPModule_init nm inplanes outp sizes)).
               tsize (pooled_branch st feats (h, w)) = Some [n, outp, h, w])
         \<and> tsize (Cat (map (\<lambda>st. pooled_branch st feats (h, w))
                           (stages (PSPModule_init nm inplanes outp sizes)) @ [feats]) 1)
             = Some [n, inplanes + length sizes * outp, h, w]
         \<and> PSPModule_forward (PSPModule_init nm inplanes outp sizes) feats
             = bottleneck (PSPModule_init nm inplanes outp sizes)
                 (Cat (map (\<lambda>st. pooled_branch st feats (h, w))
                           (stages (PSPModule_init nm inplanes outp sizes)) @ [feats]) 1)"
  using assms by (rule PSPModule_priors_init)

theorem PSPModule_priors_concat_witness:
  "tsize example_feats = Some [2, 8, 5, 7] \<and> list_all (\<lambda>s. (0::nat) < s) [1, 2, 3, 6]
   \<and> map_option length (PSPModule_priors (PSPModule_init [L ''ppm''] 8 4 [1, 2, 3, 6])
                          example_feats) = Some 5
   \<and> tsize (Cat (map (\<lambda>st. pooled_branch st example_feats (5, 7))
                     (stages (PSPModule_init [L ''ppm''] 8 4 [1, 2, 3, 6])) @ [example_feats]) 1)
       = Some [2, 24, 5, 7]"
proof -
  have h1: "tsize example_feats = Some [2, 8, 5, 7]" by (simp add: example_feats_def)
  have h2: "(0::nat) < 5" "(0::nat) < 7" by simp_all
  have h3: "\<forall>s\<in>set [1, 2, 3, 6]. (0::nat) < s" by simp
  have len: "length (stages (PSPModule_init [L ''ppm''] 8 4 [1, 2, 3, 6])) = 4"
    by (simp add: PSPModule_init_def)
  from PSPModule_priors_concat[OF h1 h2 h3, of "[L ''ppm'']" 4] h1 len
  show ?thesis by simp
qed

text \<open>
  Claim C8.  For an input of spatial size \<open>(h, w)\<close>, whatever \<open>PSPModule.forward\<close> returns has
  spatial size \<open>(h + 2, w + 2)\<close>, since the 1x1 bottleneck convolution is built with
  \<open>padding=1\<close>; and it does return for an input of \<open>inplanes\<close> channels with \<open>h\<close>, \<open>w\<close> and all
  pooling sizes positive.
\<close>

theorem PSPModule_forward_size:
  assumes "tsize feats = Some [n, c, h, w]"
  shows "(\<forall>y. PSPModule_forward (PSPModule_init nm inplanes outp sizes) feats = Some y
               \<longrightarrow> tsize y = Some [n, outp, h + 2, w + 2])
         \<and> (c = inplanes \<and> 0 < h \<and> 0 < w \<and> (\<forall>s\<in>set sizes. 0 < s)
               \<longrightarrow> (\<exists>y. PSPModule_forward (PSPModule_init nm inplanes outp sizes) feats = Some y))"
proof (intro conjI allI impI)
  fix y
  let ?m = "PSPModule_init nm inplanes outp sizes"
  assume "PSPModule_forward ?m feats = Some y"
  then obtain ps where ps: "PSPModule_priors ?m feats = Some ps"
    and cat: "tsize (Cat ps 1) \<noteq> None" and b: "bottleneck ?m (Cat ps 1) = Some y"
    by (auto simp: PSPModule_forward_def bind_eq_Some_conv run_Some simp del: tsize.simps)
  from cat obtain r where r: "tsize (Cat ps (Suc 0)) = Some r" by auto
  from tsize_Cat_member[OF r PSPModule_priors_last[OF ps] assms]
  obtain c' where "r = [n, c', h, w]" by blast
  with r have "tsize (Cat ps 1) = Some [n, c', h, w]" by simp
  with b show "tsize y = Some [n, outp, h + 2, w + 2]" by (rule bottleneck_size)
next
  let ?m = "PSPModule_init nm inplanes outp sizes"
  assume a: "c = inplanes \<and> 0 < h \<and> 0 < w \<and> (\<forall>s\<in>set sizes. 0 < s)"
  with assms have f: "tsize feats = Some [n, inplanes, h, w]" by simp
  from a have pos: "0 < h" "0 < w" "\<forall>s\<in>set sizes. 0 < s" by auto
  note pc = PSPModule_priors_init[OF f pos, of nm outp]
  from pc have "PSPModule_forward ?m feats
                  = bottleneck ?m (Cat (map (\<lambda>st. pooled_branch st feats (h, w)) (stages ?m) @ [feats]) 1)"
    and "tsize (Cat (map (\<lambda>st. pooled_branch st feats (h, w)) (stages ?m) @ [feats]) 1)
           = Some [n, inplanes + length sizes * outp, h, w]"
    by blast+
  with bottleneck_returns show "\<exists>y. PSPModule_forward ?m feats = Some y" by metis
qed


theorem PSPModule_forward_size_witness:
  "tsize example_feats = Some [2, 8, 5, 7]
   \<and> (0::nat) < 5 \<and> (0::nat) < 7 \<and> list_all (\<lambda>s. (0::nat) < s) [1, 2, 3, 6]
   \<and> map_option tsize (PSPModule_forward (PSPModule_init [L ''ppm''] 8 4 [1, 2, 3, 6])
                         example_feats) = Some (Some [2, 4, 7, 9])"
proof -
  have h1: "tsize example_feats = Some [2, 8, 5, 7]" by (simp add: example_feats_def)
  have h2: "(8::nat) = 8 \<and> (0::nat) < 5 \<and> (0::nat) < 7 \<and> (\<forall>s\<in>set [1, 2, 3, 6]. (0::nat) < s)"
    by simp
  from PSPModule_forward_size[OF h1, of "[L ''ppm'']" 8 4 "[1, 2, 3, 6]"] h2
  obtain y where "PSPModule_forward (PSPModule_init [L ''ppm''] 8 4 [1, 2, 3, 6]) example_feats
                    = Some y" and "tsize y = Some [2, 4, 5 + 2, 7 + 2]"
    by blast
  with h1 show ?thesis by simp
qed

subsection \<open>The data flow of AlignedModule.forward\<close>

lemma flow_warp_Some:
  "flow_warp input flow sz = Some y \<Longrightarrow> \<exists>g. y = GridSample input g"
  by (auto simp: flow_warp_def bind_eq_Some_conv run_Some simp del: tsize.simps)

lemma AlignedModule_forward_Some:
  "AlignedModule_forward m (low, high) = Some y \<longleftrightarrow>
     (\<exists>n c h w. tsize low = Some [n, c, h, w]
        \<and> tsize (Conv2d (flow_make m)
                   (Cat [Upsample (Conv2d (down_h m) high) (h, w), Conv2d (down_l m) low] 1)) \<noteq> None
        \<and> flow_warp high (Conv2d (flow_make m)
                   (Cat [Upsample (Conv2d (down_h m) high) (h, w), Conv2d (down_l m) low] 1)) (h, w) = Some y)"
  by (auto simp: AlignedModule_forward_def bind_eq_Some_conv warp_args_Some simp del: tsize.simps)

text \<open>
  Claim C1, as amended.  Whenever \<open>AlignedModule.forward\<close> returns: the flow is
  \<open>flow_make\<close> of the channel-wise concatenation of the 1x1-convolved coarse feature,
  bilinearly upsampled to the spatial size \<open>(h, w)\<close> of \<open>low_feature\<close>, and the
  1x1-convolved fine feature; and the grid-sample warp is applied to the original coarse
  feature \<open>h_feature\<close>, as it was passed in, neither convolved nor upsampled.
\<close>

theorem AlignedModule_forward_dataflow:
  assumes "tsize low_feature = Some [n, c, h, w]"
    and "AlignedModule_forward m (low_feature, h_feature) \<noteq> None"
  shows "AlignedModule_warp_args m (low_feature, h_feature)
           = Some (h_feature,
                   Conv2d (flow_make m)
                     (Cat [Upsample (Conv2d (down_h m) h_feature) (h, w),
                           Conv2d (down_l m) low_feature] 1),
                   (h, w))
         \<and> (\<exists>n'. tsize (Upsample (Conv2d (down_h m) h_feature) (h, w))
                    = Some [n', out_channels (down_h m), h, w])
         \<and> AlignedModule_forward m (low_feature, h_feature)
             = flow_warp h_feature
                 (Conv2d (flow_make m)
                    (Cat [Upsample (Conv2d (down_h m) h_feature) (h, w),
                          Conv2d (down_l m) low_feature] 1))
                 (h, w)
         \<and> Option.bind (AlignedModule_forward m (low_feature, h_feature)) sampled_input
             = Some h_feature"
proof -
  let ?up = "Upsample (Conv2d (down_h m) h_feature) (h, w)"
  let ?flow = "Conv2d (flow_make m) (Cat [?up, Conv2d (down_l m) low_feature] 1)"
  from assms(2) obtain y where y: "AlignedModule_forward m (low_feature, h_feature) = Some y"
    by auto
  with assms(1) have fl: "tsize ?flow \<noteq> None" and fw: "flow_warp h_feature ?flow (h, w) = Some y"
    by (auto simp: AlignedModule_forward_Some simp del: tsize.simps)
  from fl assms(1) have args: "AlignedModule_warp_args m (low_feature, h_feature)
                                 = Some (h_feature, ?flow, (h, w))"
    by (simp add: warp_args_Some del: tsize.simps)
  from fl have "\<exists>n'. tsize ?up = Some [n', out_channels (down_h m), h, w]"
    by (auto simp add: tsize_Cat2 bind_eq_Some_conv conv_shape_Some upsample_shape_Some
             simp del: tsize.simps(8))
  moreover from fw obtain g where "y = GridSample h_feature g" using flow_warp_Some by blast
  ultimately show ?thesis using args y fw by simp
qed

theorem AlignedModule_forward_dataflow_witness:
  "tsize example_low = Some [1, 4, 4, 4]
   \<and> AlignedModule_forward (AlignedModule_init [L ''align''] 4 2 3) (example_low, example_high)
       \<noteq> None
   \<and> map_option fst (AlignedModule_warp_args (AlignedModule_init [L ''align''] 4 2 3)
                        (example_low, example_high)) = Some example_high
   \<and> Option.bind (AlignedModule_forward (AlignedModule_init [L ''align''] 4 2 3)
                     (example_low, example_high)) sampled_input = Some example_high"
proof -
  have h1: "tsize example_low = Some [1, 4, 4, 4]" by (simp add: example_low_def)
  have h2: "AlignedModule_forward (AlignedModule_init [L ''align''] 4 2 3)
              (example_low, example_high) \<noteq> None"
    by code_simp
  note d = AlignedModule_forward_dataflow[OF h1 h2]
  have a: "map_option fst (AlignedModule_warp_args (AlignedModule_init [L ''align''] 4 2 3)
                             (example_low, example_high)) = Some example_high"
    by (simp only: conjunct1[OF d] option.map fst_conv)
  have b: "Option.bind (AlignedModule_forward (AlignedModule_init [L ''align''] 4 2 3)
                          (example_low, example_high)) sampled_input = Some example_high"
    by (rule conjunct2[OF conjunct2[OF conjunct2[OF d]]])
  from h1 h2 a b show ?thesis by blast
qed

text \<open>
  Claim C1 as stated fails: for a fine feature of size 4 x 4 and a coarse feature of size
  2 x 2, the tensor that \<open>grid_sample\<close> resamples is the coarse feature itself, of size
  2 x 2, and not the upsampled one.
\<close>

theorem warp_of_upsampled_counterexample:
  "Option.bind (AlignedModule_forward (AlignedModule_init [L ''align''] 4 2 3)
                  (example_low, example_high)) sampled_input = Some example_high
   \<and> tsize example_high = Some [1, 4, 2, 2] \<and> tsize example_low = Some [1, 4, 4, 4]
   \<and> Option.bind (AlignedModule_forward (AlignedModule_init [L ''align''] 4 2 3)
                    (example_low, example_high)) sampled_input
       \<noteq> Some (Upsample (Conv2d (down_h (AlignedModule_init [L ''align''] 4 2 3)) example_high)
                 (4, 4))
   \<and> Option.bind (AlignedModule_forward (AlignedModule_init [L ''align''] 4 2 3)
                    (example_low, example_high)) sampled_input
       \<noteq> Some (Upsample example_high (4, 4))"
  by code_simp

subsection \<open>The order of the levels in AlignHead.forward\<close>

lemma fpn_loop_append:
  "fpn_loop m xs (is1 @ is2) f acc
     = do { (f', acc') \<leftarrow> fpn_loop m xs is1 f acc; fpn_loop m xs is2 f' acc' }"
proof (induction is1 arbitrary: f acc)
  case Nil
  then show ?case by simp
next
  case (Cons i is1)
  show ?case
    by (simp add: Cons.IH split: Option.bind_splits)
qed

text \<open>The state of the loop after the levels above \<open>i\<close> and level \<open>i\<close> itself.\<close>

lemma fpn_loop_pyramid_upto:
  assumes "xs \<noteq> []" and "n = length xs - 1" and "i \<le> n"
  shows "do { c \<leftarrow> last_opt xs; p \<leftarrow> PSPModule_forward (ppm m) c;
              fpn_loop m xs (rev [i..<n]) p [p] }
           = map_option (\<lambda>(f, ps). (f, rev ps)) (pyramid m i (drop i xs))"
  using assms(3)
proof (induction k \<equiv> "n - i" arbitrary: i)
  case 0
  then have i: "i = length xs - 1" using assms(2) by simp
  with assms(1) have "drop i xs = [last xs]"
    by (metis One_nat_def append_butlast_last_id append_eq_conv_conj length_butlast)
  with assms(1) i assms(2) show ?case
    by (simp add: last_opt_def split: Option.bind_splits)
next
  case (Suc k)
  then have lt: "i < n" and k: "k = n - Suc i" and le: "Suc i \<le> n"
    by auto
  from lt have up: "rev [i..<n] = rev [Suc i..<n] @ [i]"
    by (simp add: upt_conv_Cons)
  from lt assms(2) have ilt: "i < length xs" and slt: "Suc i < length xs" by simp_all
  from slt obtain v va where dr: "drop (Suc i) xs = v # va"
    by (cases "drop (Suc i) xs") auto
  with ilt have dr0: "drop i xs = xs ! i # v # va"
    by (metis Cons_nth_drop_Suc)
  let ?start = "\<lambda>j. do { c \<leftarrow> last_opt xs; p \<leftarrow> PSPModule_forward (ppm m) c;
                          fpn_loop m xs (rev [j..<n]) p [p] }"
  have IH: "?start (Suc i) = map_option (\<lambda>(f, ps). (f, rev ps)) (pyramid m (Suc i) (v # va))"
    using Suc.hyps(1)[OF k le] dr by simp
  have loop: "fpn_loop m xs (rev [i..<n]) p [p]
                = do { (f, acc) \<leftarrow> fpn_loop m xs (rev [Suc i..<n]) p [p];
                       fpn_loop m xs [i] f acc }" for p
    by (simp only: up fpn_loop_append)
  have "?start i = do { (f, acc) \<leftarrow> ?start (Suc i); fpn_loop m xs [i] f acc }"
  proof (cases "last_opt xs")
    case None
    then show ?thesis by simp
  next
    case (Some c)
    show ?thesis
    proof (cases "PSPModule_forward (ppm m) c")
      case None
      with Some show ?thesis by simp
    next
      case (Some p)
      with \<open>last_opt xs = Some c\<close> show ?thesis by (simp only: loop Option.bind.simps)
    qed
  qed
  also have "\<dots> = do { (f, acc) \<leftarrow> map_option (\<lambda>(f, ps). (f, rev ps)) (pyramid m (Suc i) (v # va));
                        fpn_loop m xs [i] f acc }"
    by (simp only: IH)
  also have "\<dots> = map_option (\<lambda>(f, ps). (f, rev ps)) (pyramid m i (xs ! i # v # va))"
    using ilt
    by (cases "pyramid m (Suc i) (v # va)")
       (auto simp: nth_opt_def split: Option.bind_splits)
  finally show ?case by (simp only: dr0)
qed

text \<open>The pyramid has one feature per level, and its last, coarsest one is the pyramid
  pooling of the last level.\<close>

lemma pyramid_levels:
  "pyramid m i xs = Some (f, ps) \<Longrightarrow>
     length ps = length xs \<and> PSPModule_forward (ppm m) (last xs) = Some (last ps)"
proof (induction m i xs arbitrary: f ps rule: pyramid.induct)
  case (1 m i)
  then show ?case by simp
next
  case (2 m i c)
  then show ?case by (auto simp: bind_eq_Some_conv)
next
  case (3 m i x v va)
  from "3.prems" obtain f' coarser y where
    rec: "pyramid m (Suc i) (v # va) = Some (f', coarser)" and ps: "ps = y # coarser"
    by (auto simp: bind_eq_Some_conv)
  from "3.IH"[OF rec] have "length coarser = length (v # va)"
    and "PSPModule_forward (ppm m) (last (v # va)) = Some (last coarser)" by auto
  moreover from this have "coarser \<noteq> []" by auto
  ultimately show ?case using ps by simp
qed

text \<open>
  Claim C3.  \<open>AlignHead.forward\<close> computes the feature pyramid of the specification: the
  coarsest level \<open>conv_out[-1]\<close> is pyramid-pooled first, every finer level is computed from
  the result of the next coarser one, from index \<open>len(conv_out) - 2\<close> down to 0, and the
  list that is fused is in the order of \<open>conv_out\<close>, finest first, with the pooled coarsest
  level last: the loop appends the levels coarsest first and the list is reversed before
  the fusion.  Both sides raise for the empty list.
\<close>

theorem AlignHead_forward_pyramid:
  "AlignHead_forward m conv_out
     = do { (f, fpn_feature_list) \<leftarrow> pyramid m 0 conv_out;
            AlignHead_fuse m fpn_feature_list }
   \<and> (\<forall>f ps. pyramid m 0 conv_out = Some (f, ps) \<longrightarrow>
          length ps = length conv_out
          \<and> PSPModule_forward (ppm m) (last conv_out) = Some (last ps))"
proof -
  have fused: "AlignHead_forward m conv_out
                 = do { (f, fpn_feature_list) \<leftarrow> pyramid m 0 conv_out;
                        AlignHead_fuse m fpn_feature_list }"
  proof (cases "conv_out = []")
    case True
    then show ?thesis by (simp add: AlignHead_forward_def last_opt_def)
  next
    case False
    have "AlignHead_forward m conv_out
            = do { (f, acc) \<leftarrow> do { c \<leftarrow> last_opt conv_out;
                                     p \<leftarrow> PSPModule_forward (ppm m) c;
                                     fpn_loop m conv_out (rev [0..<length conv_out - 1]) p [p] };
                   AlignHead_fuse m (rev acc) }"
      by (simp add: AlignHead_forward_def split: Option.bind_splits)
    also have "\<dots> = do { (f, acc) \<leftarrow> map_option (\<lambda>(f, ps). (f, rev ps))
                                         (pyramid m 0 conv_out);
                          AlignHead_fuse m (rev acc) }"
      using fpn_loop_pyramid_upto[OF False refl, of 0 m] by simp
    also have "\<dots> = do { (f, ps) \<leftarrow> pyramid m 0 conv_out; AlignHead_fuse m ps }"
      by (cases "pyramid m 0 conv_out") auto
    finally show ?thesis .
  qed
  from fused pyramid_levels show ?thesis by blast
qed

theorem AlignHead_forward_pyramid_witness:
  "map_option tsize (AlignHead_forward example_head example_conv_out) = Some (Some [1, 3, 8, 8])
   \<and> map_option (map tsize \<circ> snd) (pyramid example_head 0 example_conv_out)
       = Some [Some [1, 2, 8, 8], Some [1, 2, 4, 4], Some [1, 2, 4, 4]]
   \<and> map_option (last \<circ> snd) (pyramid example_head 0 example_conv_out)
       = PSPModule_forward (ppm example_head) (last example_conv_out)"
proof -
  have p: "map_option (map tsize \<circ> snd) (pyramid example_head 0 example_conv_out)
           = Some [Some [1, 2, 8, 8], Some [1, 2, 4, 4], Some [1, 2, 4, 4]]"
    by code_simp
  have f: "map_option tsize
             (do { (f, fpn_feature_list) \<leftarrow> pyramid example_head 0 example_conv_out;
                   AlignHead_fuse example_head fpn_feature_list })
           = Some (Some [1, 3, 8, 8])"
    by code_simp
  note both = AlignHead_forward_pyramid[of example_head example_conv_out]
  from p obtain g ps where gp: "pyramid example_head 0 example_conv_out = Some (g, ps)"
    by (cases "pyramid example_head 0 example_conv_out") auto
  with both have "PSPModule_forward (ppm example_head) (last example_conv_out) = Some (last ps)"
    by blast
  with gp have l: "map_option (last \<circ> snd) (pyramid example_head 0 example_conv_out)
                   = PSPModule_forward (ppm example_head) (last example_conv_out)"
    by simp
  from conjunct1[OF both] p f l show ?thesis by simp
qed

subsection \<open>The sampling grid of flow_warp\<close>

lemma bidx_in_range:
  "list_all2 (<) idx s \<Longrightarrow> bidx s idx = idx"
proof -
  assume a: "list_all2 (<) idx s"
  then have len: "length idx = length s" by (rule list_all2_lengthD)
  have "map2 (\<lambda>d i. if d = 1 then 0 else i) s idx = idx" using a
    by (induction rule: list_all2_induct) auto
  with len show ?thesis by (simp add: bidx_def)
qed

lemma shape_of_Some: "tsize t = Some s \<Longrightarrow> shape_of t = s"
  by (simp add: shape_of_def)

text \<open>
  Claim C4.  For an input of batch size \<open>n\<close> and a flow of shape \<open>(n, 2, out_h, out_w)\<close>,
  \<open>flow_warp\<close> passes to \<open>grid_sample\<close> the grid whose element at batch \<open>b\<close>, row \<open>i\<close>, column
  \<open>j\<close> has the x-coordinate first: element \<open>j\<close> of \<open>linspace(-1, 1, out_w)\<close> plus the first
  flow channel divided by \<open>out_w\<close>, then element \<open>i\<close> of \<open>linspace(-1, 1, out_h)\<close> plus the
  second flow channel divided by \<open>out_h\<close>.
\<close>

theorem flow_warp_grid_value:
  fixes out_h out_w n :: nat
  assumes inp: "tsize input = Some [n, c, h, w]"
    and fl: "tsize flow = Some [n, 2, out_h, out_w]"
  shows "\<exists>grid. flow_warp_grid input flow (out_h, out_w) = Some grid
           \<and> flow_warp input flow (out_h, out_w) = run (GridSample input grid)
           \<and> tsize grid = Some [n, out_h, out_w, 2]
           \<and> (\<forall>b<n. \<forall>i<out_h. \<forall>j<out_w.
                 elem \<rho> grid [b, i, j, 0]
                   = linspace (- 1) 1 out_w j + elem \<rho> flow [b, 0, i, j] / real out_w
                 \<and> elem \<rho> grid [b, i, j, 1]
                     = linspace (- 1) 1 out_h i + elem \<rho> flow [b, 1, i, j] / real out_h)"
proof -
  let ?norm = "TypeAs (Literal [1, 1, 1, 2] [real out_w, real out_h]) input"
  let ?w = "Repeat (View (Linspace (- 1) 1 out_h) [- 1, 1]) [1, out_w]"
  let ?h = "Repeat (Linspace (- 1) 1 out_w) [out_h, 1]"
  let ?cat = "Cat [Unsqueeze ?h 2, Unsqueeze ?w 2] 2"
  let ?base = "TypeAs (Repeat ?cat [n, 1, 1, 1]) input"
  let ?fd = "Div (Permute flow [0, 2, 3, 1]) ?norm"
  let ?grid = "Add ?base ?fd"
  have s_lit: "tsize (Literal [1, 1, 1, 2] [real out_w, real out_h]) = Some [1, 1, 1, 2]"
    by simp
  have s_lin: "tsize (Linspace (- 1) 1 out_h) = Some [out_h]"
    "tsize (Linspace (- 1) 1 out_w) = Some [out_w]" by simp_all
  have s_norm: "tsize ?norm = Some [1, 1, 1, 2]" using inp by simp
  have s_view: "tsize (View (Linspace (- 1) 1 out_h) [- 1, 1]) = Some [out_h, 1]"
    by (simp add: view_shape_def)
  have s_w: "tsize ?w = Some [out_h, out_w]"
    using s_view by (simp add: repeat_shape_def lpad_def del: tsize.simps(16))
  have s_h: "tsize ?h = Some [out_h, out_w]"
    by (simp add: repeat_shape_def lpad_def)
  have s_hu: "tsize (Unsqueeze ?h 2) = Some [out_h, out_w, 1]"
    using s_h by (simp add: unsqueeze_shape_def del: tsize.simps(17))
  have s_wu: "tsize (Unsqueeze ?w 2) = Some [out_h, out_w, 1]"
    using s_w by (simp add: unsqueeze_shape_def del: tsize.simps(17))
  have s_cat: "tsize ?cat = Some [out_h, out_w, 2]"
    using s_hu s_wu by (simp add: tsize_Cat2 cat_shape_def del: tsize.simps)
  have s_rep: "tsize (Repeat ?cat [n, 1, 1, 1]) = Some [n, out_h, out_w, 2]"
    using s_cat by (simp add: repeat_shape_def lpad_def del: tsize.simps(8))
  have s_base: "tsize ?base = Some [n, out_h, out_w, 2]"
    using s_rep inp by (simp del: tsize.simps(8,17))
  have s_perm: "tsize (Permute flow [0, 2, 3, 1]) = Some [n, out_h, out_w, 2]"
    using fl by (simp add: permute_shape_def)
  have s_fd: "tsize ?fd = Some [n, out_h, out_w, 2]"
    using s_perm s_norm
    by (simp add: broadcast_shape_def broadcast_def lpad_def bdim_def del: tsize.simps(12,14))
  have s_grid: "tsize ?grid = Some [n, out_h, out_w, 2]"
    using s_base s_fd
    by (simp add: broadcast_shape_def broadcast_def lpad_def bdim_def del: tsize.simps(11,12,14))
  have grid: "flow_warp_grid input flow (out_h, out_w) = Some ?grid"
    unfolding flow_warp_grid_def
    using inp s_lit s_lin s_norm s_view s_w s_h s_hu s_wu s_cat s_rep s_base s_perm s_fd s_grid
    by (simp add: run_def del: tsize.simps)
  note sh = shape_of_Some[OF s_view] shape_of_Some[OF s_lin(1)] shape_of_Some[OF s_lin(2)]
    shape_of_Some[OF s_hu] shape_of_Some[OF s_wu] shape_of_Some[OF s_cat]
    shape_of_Some[OF s_base] shape_of_Some[OF s_fd] shape_of_Some[OF s_perm]
    shape_of_Some[OF s_norm]
  have warp: "flow_warp input flow (out_h, out_w) = run (GridSample input ?grid)"
    using grid by (simp add: flow_warp_def del: tsize.simps)
  have vals: "elem \<rho> ?grid [b, i, j, 0]
                = linspace (- 1) 1 out_w j + elem \<rho> flow [b, 0, i, j] / real out_w
              \<and> elem \<rho> ?grid [b, i, j, 1]
                  = linspace (- 1) 1 out_h i + elem \<rho> flow [b, 1, i, j] / real out_h"
    if b: "b < n" and i: "i < out_h" and j: "j < out_w" for b i j
  proof -
  have e_h: "elem \<rho> ?h [i, j] = linspace (- 1) 1 out_w j"
      using j sh(3) by (simp add: lpad_def del: tsize.simps)
    have e_w: "elem \<rho> ?w [i, j] = linspace (- 1) 1 out_h i"
      using i sh(1,2) by (simp add: lpad_def del: tsize.simps)
    have e_cat0: "elem \<rho> ?cat [i, j, 0] = linspace (- 1) 1 out_w j"
      using e_h sh(4) by (simp del: elem.simps(9) tsize.simps)
    have e_cat1: "elem \<rho> ?cat [i, j, 1] = linspace (- 1) 1 out_h i"
      using e_w sh(4,5) by (simp del: elem.simps(9) tsize.simps)
    have e_base: "elem \<rho> ?base [b, i, j, k] = elem \<rho> ?cat [i, j, k]" if "k < 2" for k
      using i j that sh(6) by (simp add: lpad_def del: elem.simps(1) tsize.simps)
    have e_norm: "elem \<rho> ?norm [0, 0, 0, 0] = real out_w" "elem \<rho> ?norm [0, 0, 0, 1] = real out_h"
      by simp_all
    have e_perm: "elem \<rho> (Permute flow [0, 2, 3, 1]) [b, i, j, k] = elem \<rho> flow [b, k, i, j]" for k
      by (simp add: index_of_def upt_rec[of _ "Suc (Suc (Suc (Suc 0)))"])
    have bi: "bidx [n, out_h, out_w, 2] [b, i, j, k] = [b, i, j, k]" if "k < 2" for k
      using b i j that by (simp add: bidx_in_range)
    have bn: "bidx [1, 1, 1, 2] [b, i, j, k] = [0, 0, 0, k]" if "k < 2" for k
      using that by (auto simp: bidx_def)
    have e_fd0: "elem \<rho> ?fd [b, i, j, 0] = elem \<rho> flow [b, 0, i, j] / real out_w"
      using e_perm[of 0] e_norm(1) sh(9,10) bi[of 0] bn[of 0]
      by (simp del: elem.simps(4,5,6) tsize.simps)
    have e_fd1: "elem \<rho> ?fd [b, i, j, 1] = elem \<rho> flow [b, 1, i, j] / real out_h"
      using e_perm[of 1] e_norm(2) sh(9,10) bi[of 1] bn[of 1]
      by (simp del: elem.simps(4,5,6) tsize.simps)
    have e0: "elem \<rho> ?grid [b, i, j, 0]
                = linspace (- 1) 1 out_w j + elem \<rho> flow [b, 0, i, j] / real out_w"
      using e_base[of 0] e_cat0 e_fd0 sh(7,8) bi[of 0]
      by (simp del: elem.simps(1,3,6) tsize.simps)
    have e1: "elem \<rho> ?grid [b, i, j, 1]
                = linspace (- 1) 1 out_h i + elem \<rho> flow [b, 1, i, j] / real out_h"
      using e_base[of 1] e_cat1 e_fd1 sh(7,8) bi[of 1]
      by (simp del: elem.simps(1,3,6) tsize.simps)
  from e0 e1 show ?thesis by blast
  qed
  from grid warp s_grid vals show ?thesis by blast
qed

theorem flow_warp_grid_value_witness:
  "tsize example_high = Some [1, 4, 2, 2] \<and> tsize example_flow = Some [1, 2, 2, 3]
   \<and> (\<exists>grid. flow_warp_grid example_high example_flow (2, 3) = Some grid
         \<and> flow_warp example_high example_flow (2, 3) = Some (GridSample example_high grid)
         \<and> elem (\<lambda>t idx. 6) grid [0, 1, 2, 0] = 3
         \<and> elem (\<lambda>t idx. 6) grid [0, 1, 2, 1] = 4)"
proof -
  have h1: "tsize example_high = Some [1, 4, 2, 2]" by (simp add: example_high_def)
  have h2: "tsize example_flow = Some [1, 2, 2, 3]" by (simp add: example_flow_def)
  from flow_warp_grid_value[OF h1 h2, of "\<lambda>t idx. 6"]
  obtain grid where g: "flow_warp_grid example_high example_flow (2, 3) = Some grid"
    and w: "flow_warp example_high example_flow (2, 3) = run (GridSample example_high grid)"
    and s: "tsize grid = Some [1, 2, 3, 2]"
    and v: "\<forall>b<1. \<forall>i<2. \<forall>j<3.
              elem (\<lambda>t idx. 6) grid [b, i, j, 0]
                = linspace (- 1) 1 3 j + elem (\<lambda>t idx. 6) example_flow [b, 0, i, j] / real 3
              \<and> elem (\<lambda>t idx. 6) grid [b, i, j, 1]
                  = linspace (- 1) 1 2 i + elem (\<lambda>t idx. 6) example_flow [b, 1, i, j] / real 2"
    by blast
  from v have "elem (\<lambda>t idx. 6) grid [0, 1, 2, 0] = 3 \<and> elem (\<lambda>t idx. 6) grid [0, 1, 2, 1] = 4"
    by (simp add: linspace_def example_flow_def)
  moreover from w s h1 have "flow_warp example_high example_flow (2, 3)
                               = Some (GridSample example_high grid)"
    by (simp add: run_def grid_sample_shape_def)
  ultimately show ?thesis using h1 h2 g by blast
qed

end
